theory Spec2Isabelle
  imports Main "HOL-Library.Word"
begin

unbundle bit_operations_syntax

section \<open>Server side of the SSLv3/TLS handshake (library/ssl\_srv.c)\<close>

text \<open>
  A shallow embedding of the parsers and builders of \<^verbatim>\<open>library/ssl_srv.c\<close>.
  An \<^verbatim>\<open>unsigned char\<close> is an 8-bit word; a \<^verbatim>\<open>size_t\<close> or
  \<^verbatim>\<open>unsigned int\<close> length is a natural number (no length of this file comes
  near the width of the machine word: every one is a sum of a few 8- or 16-bit fields);
  an \<^verbatim>\<open>int\<close> is an integer. A C pointer into a byte array is the function from
  offsets to the bytes found there, so \<^verbatim>\<open>p[i]\<close> is \<open>p i\<close> and
  \<^verbatim>\<open>p + k\<close> is \<open>ptr_add p k\<close>; a read past the bytes a message filled in
  returns whatever the array holds there, as it does in C.
\<close>

subsection \<open>Bytes and buffers\<close>

type_synonym byte = "8 word"
type_synonym buffer = "nat \<Rightarrow> byte"

definition ptr_add :: "buffer \<Rightarrow> nat \<Rightarrow> buffer" where
  "ptr_add p k = (\<lambda>i. p (k + i))"

text \<open>\<^verbatim>\<open>( hi << 8 ) | lo\<close> on two bytes promoted to \<^verbatim>\<open>int\<close>.\<close>
definition be16 :: "byte \<Rightarrow> byte \<Rightarrow> nat" where
  "be16 hi lo = push_bit 8 (unat hi) OR unat lo"

text \<open>The \<open>n\<close> bytes found at a pointer.\<close>
definition bytes_at :: "buffer \<Rightarrow> nat \<Rightarrow> byte list" where
  "bytes_at p n = map p [0..<n]"

text \<open>\<^verbatim>\<open>memcpy( dst + off, src, n )\<close> and \<^verbatim>\<open>memset( dst, c, n )\<close>.\<close>
definition memcpy :: "buffer \<Rightarrow> nat \<Rightarrow> buffer \<Rightarrow> nat \<Rightarrow> buffer" where
  "memcpy dst off src n = (\<lambda>i. if off \<le> i \<and> i < off + n then src (i - off) else dst i)"

definition memset :: "buffer \<Rightarrow> byte \<Rightarrow> nat \<Rightarrow> buffer" where
  "memset dst c n = (\<lambda>i. if i < n then c else dst i)"

text \<open>\<^verbatim>\<open>memcmp( a, b, n ) == 0\<close>.\<close>
definition memeq :: "buffer \<Rightarrow> buffer \<Rightarrow> nat \<Rightarrow> bool" where
  "memeq a b n = (bytes_at a n = bytes_at b n)"

text \<open>A sequence of \<^verbatim>\<open>*p++ = x\<close> stores starting at \<open>dst + off\<close>.\<close>
definition store :: "buffer \<Rightarrow> nat \<Rightarrow> byte list \<Rightarrow> buffer" where
  "store dst off xs = (\<lambda>i. if off \<le> i \<and> i < off + length xs then xs ! (i - off) else dst i)"

text \<open>An array holding the given bytes, zero after them.\<close>
definition buf_of :: "byte list \<Rightarrow> buffer" where
  "buf_of xs = (\<lambda>i. if i < length xs then xs ! i else 0)"

subsection \<open>Constants of the headers\<close>

text \<open>
  Modelled from the spec: \<^verbatim>\<open>polarssl/ssl.h\<close>, \<^verbatim>\<open>polarssl/ecp.h\<close> and
  \<^verbatim>\<open>polarssl/ssl_ciphersuites.h\<close> are not among the sources. The wire values
  below are those of the protocol the spec fixes in its section 6 (RFC 5246, RFC 5746,
  RFC 4492, RFC 6066); the error kinds are those of its section 7, the handshake states
  those of its section 4.F in their order.
\<close>

definition SSL_HASH_MD5 :: byte where "SSL_HASH_MD5 = 1"
definition SSL_HASH_SHA1 :: byte where "SSL_HASH_SHA1 = 2"
definition SSL_HASH_SHA224 :: byte where "SSL_HASH_SHA224 = 3"
definition SSL_HASH_SHA256 :: byte where "SSL_HASH_SHA256 = 4"
definition SSL_HASH_SHA384 :: byte where "SSL_HASH_SHA384 = 5"
definition SSL_HASH_SHA512 :: byte where "SSL_HASH_SHA512 = 6"
definition SSL_SIG_RSA :: byte where "SSL_SIG_RSA = 1"

definition POLARSSL_ECP_PF_UNCOMPRESSED :: byte where "POLARSSL_ECP_PF_UNCOMPRESSED = 0"
definition POLARSSL_ECP_PF_COMPRESSED :: byte where "POLARSSL_ECP_PF_COMPRESSED = 1"

definition POLARSSL_ECP_DP_SECP192R1 :: byte where "POLARSSL_ECP_DP_SECP192R1 = 19"
definition POLARSSL_ECP_DP_SECP224R1 :: byte where "POLARSSL_ECP_DP_SECP224R1 = 21"
definition POLARSSL_ECP_DP_SECP256R1 :: byte where "POLARSSL_ECP_DP_SECP256R1 = 23"
definition POLARSSL_ECP_DP_SECP384R1 :: byte where "POLARSSL_ECP_DP_SECP384R1 = 24"
definition POLARSSL_ECP_DP_SECP521R1 :: byte where "POLARSSL_ECP_DP_SECP521R1 = 25"

definition TLS_EXT_SERVERNAME :: nat where "TLS_EXT_SERVERNAME = 0"
definition TLS_EXT_SERVERNAME_HOSTNAME :: byte where "TLS_EXT_SERVERNAME_HOSTNAME = 0"
definition TLS_EXT_SUPPORTED_ELLIPTIC_CURVES :: nat where "TLS_EXT_SUPPORTED_ELLIPTIC_CURVES = 10"
definition TLS_EXT_SUPPORTED_POINT_FORMATS :: nat where "TLS_EXT_SUPPORTED_POINT_FORMATS = 11"
definition TLS_EXT_SIG_ALG :: nat where "TLS_EXT_SIG_ALG = 13"
definition TLS_EXT_RENEGOTIATION_INFO :: nat where "TLS_EXT_RENEGOTIATION_INFO = 0xFF01"

definition SSL_MSG_HANDSHAKE :: byte where "SSL_MSG_HANDSHAKE = 22"
definition SSL_HS_CLIENT_HELLO :: byte where "SSL_HS_CLIENT_HELLO = 1"
definition SSL_HS_SERVER_HELLO :: byte where "SSL_HS_SERVER_HELLO = 2"
definition SSL_MAJOR_VERSION_3 :: byte where "SSL_MAJOR_VERSION_3 = 3"
definition SSL_MINOR_VERSION_0 :: int where "SSL_MINOR_VERSION_0 = 0"
definition SSL_EMPTY_RENEGOTIATION_INFO :: byte where "SSL_EMPTY_RENEGOTIATION_INFO = 0xFF"
definition SSL_COMPRESS_NULL :: byte where "SSL_COMPRESS_NULL = 0"
definition SSL_COMPRESS_DEFLATE :: byte where "SSL_COMPRESS_DEFLATE = 1"
definition POLARSSL_CIPHERSUITE_EC :: int where "POLARSSL_CIPHERSUITE_EC = 1"
definition SSL_SERVER_CHANGE_CIPHER_SPEC :: int where "SSL_SERVER_CHANGE_CIPHER_SPEC = 12"

text \<open>
  The status a function returns: \<open>None\<close> is the \<^verbatim>\<open>0\<close> of success, \<open>Some e\<close> an
  error. \<open>OTHER_STATUS\<close> carries a status of a collaborator that is none of this file's.
  \<open>UNDEFINED_BEHAVIOUR\<close> is no status at all: it marks a run on which the C code
  dereferences a \<^verbatim>\<open>NULL\<close> pointer or writes past the end of an array, after which
  nothing is known of it.
\<close>
datatype error =
    POLARSSL_ERR_SSL_BAD_HS_CLIENT_HELLO
  | POLARSSL_ERR_SSL_BAD_HS_PROTOCOL_VERSION
  | POLARSSL_ERR_SSL_NO_CIPHER_CHOSEN
  | POLARSSL_ERR_SSL_BAD_INPUT_DATA
  | POLARSSL_ERR_SSL_BAD_HS_CLIENT_KEY_EXCHANGE
  | POLARSSL_ERR_SSL_BAD_HS_CLIENT_KEY_EXCHANGE_RP
  | POLARSSL_ERR_SSL_BAD_HS_CLIENT_KEY_EXCHANGE_CS
  | POLARSSL_ERR_SSL_PRIVATE_KEY_REQUIRED
  | POLARSSL_ERR_SSL_FEATURE_UNAVAILABLE
  | OTHER_STATUS int
  | UNDEFINED_BEHAVIOUR

type_synonym status = "error option"

datatype renegotiation_t = SSL_INITIAL_HANDSHAKE | SSL_RENEGOTIATION
datatype secure_renegotiation_t = SSL_LEGACY_RENEGOTIATION | SSL_SECURE_RENEGOTIATION
datatype legacy_policy_t =
  SSL_LEGACY_NO_RENEGOTIATION | SSL_LEGACY_ALLOW_RENEGOTIATION | SSL_LEGACY_BREAK_HANDSHAKE

datatype alert_level = SSL_ALERT_LEVEL_WARNING | SSL_ALERT_LEVEL_FATAL
datatype alert_msg =
    SSL_ALERT_MSG_HANDSHAKE_FAILURE
  | SSL_ALERT_MSG_PROTOCOL_VERSION
  | SSL_ALERT_MSG_UNRECOGNIZED_NAME

datatype key_exchange_type_t =
    POLARSSL_KEY_EXCHANGE_NONE
  | POLARSSL_KEY_EXCHANGE_RSA
  | POLARSSL_KEY_EXCHANGE_DHE_RSA
  | POLARSSL_KEY_EXCHANGE_ECDHE_RSA
  | POLARSSL_KEY_EXCHANGE_PSK
  | POLARSSL_KEY_EXCHANGE_DHE_PSK

subsection \<open>The structures\<close>

text \<open>
  The conditional compilation of \<^verbatim>\<open>polarssl/config.h\<close>, one flag per macro, and the
  one numeric macro the file uses, \<^verbatim>\<open>POLARSSL_MPI_MAX_SIZE\<close>, whose value is set in a
  header that is not among the sources: it is the size of the array
  \<^verbatim>\<open>ssl->handshake->premaster\<close> (line 1747 passes it as that array's capacity).
\<close>
record build_config =
  POLARSSL_SHA256_C :: bool
  POLARSSL_SHA512_C :: bool
  POLARSSL_ECP_C :: bool
  POLARSSL_ECP_DP_SECP192R1_ENABLED :: bool
  POLARSSL_ECP_DP_SECP224R1_ENABLED :: bool
  POLARSSL_ECP_DP_SECP256R1_ENABLED :: bool
  POLARSSL_ECP_DP_SECP384R1_ENABLED :: bool
  POLARSSL_ECP_DP_SECP521R1_ENABLED :: bool
  POLARSSL_ZLIB_SUPPORT :: bool
  POLARSSL_SSL_SRV_SUPPORT_SSLV2_CLIENT_HELLO :: bool
  POLARSSL_KEY_EXCHANGE_RSA_ENABLED :: bool
  POLARSSL_KEY_EXCHANGE_DHE_RSA_ENABLED :: bool
  POLARSSL_KEY_EXCHANGE_ECDHE_RSA_ENABLED :: bool
  POLARSSL_KEY_EXCHANGE_PSK_ENABLED :: bool
  POLARSSL_KEY_EXCHANGE_DHE_PSK_ENABLED :: bool
  POLARSSL_MPI_MAX_SIZE :: nat

record ssl_ciphersuite_t =
  cs_id :: int
  key_exchange :: key_exchange_type_t
  min_minor_ver_cs :: int
  max_minor_ver_cs :: int
  flags :: int

text \<open>\<^verbatim>\<open>ssl_handshake_params\<close>: the scratch of one negotiation.\<close>
record ssl_handshake_params =
  sig_alg :: int
  ec_curve :: int
  ec_point_format :: int
  hs_max_major_ver :: int
  hs_max_minor_ver :: int
  randbytes :: buffer
  resume :: int
  premaster :: buffer
  pmslen :: nat
  dhm_ctx_len :: nat
  ecdh_ctx_grp_P_size :: nat

text \<open>\<^verbatim>\<open>ssl_session\<close>: \<open>sess_length\<close> and \<open>sess_id\<close> are its \<^verbatim>\<open>length\<close> and \<^verbatim>\<open>id\<close>.\<close>
record ssl_session =
  sess_length :: nat
  sess_id :: buffer
  ciphersuite :: int
  compression :: byte

text \<open>
  \<^verbatim>\<open>ssl_context\<close>. \<open>in_hdr\<close> is the input array seen from \<^verbatim>\<open>ssl->in_hdr\<close>;
  \<^verbatim>\<open>ssl->in_msg\<close> points five bytes further. A \<^verbatim>\<open>NULL\<close> pointer or callback is
  \<open>None\<close>. Three fields record what the function handed to its collaborators: the
  alerts given to the record layer, the bytes folded into the transcript hash, the
  handshake messages given to \<^verbatim>\<open>ssl_write_record\<close>.
\<close>
record ssl_context =
  state :: int
  renegotiation :: renegotiation_t
  secure_renegotiation :: secure_renegotiation_t
  allow_legacy_renegotiation :: legacy_policy_t
  major_ver :: int
  minor_ver :: int
  max_minor_ver :: int
  min_minor_ver :: int
  verify_data_len :: nat
  own_verify_data :: buffer
  peer_verify_data :: buffer
  in_hdr :: buffer
  in_left :: nat
  in_msglen :: nat
  in_msgtype :: byte
  in_hslen :: nat
  out_msg :: buffer
  out_msglen :: nat
  out_msgtype :: byte
  ciphersuite_list :: "int \<Rightarrow> int list"
  f_sni :: "(byte list \<Rightarrow> status) option"
  f_get_cache :: "(ssl_session \<Rightarrow> status \<times> ssl_session) option"
  p_rng :: nat
  f_rng :: "nat \<Rightarrow> nat \<Rightarrow> status \<times> buffer \<times> nat"
  rsa_key :: "nat option"
  rsa_key_len :: "nat \<Rightarrow> nat"
  rsa_decrypt :: "nat \<Rightarrow> byte list \<Rightarrow> nat \<Rightarrow> buffer \<Rightarrow> status \<times> nat \<times> buffer"
  psk :: "buffer option"
  psk_len :: nat
  psk_identity :: "buffer option"
  psk_identity_len :: nat
  handshake :: ssl_handshake_params
  session_negotiate :: ssl_session
  ciphersuite_info :: "ssl_ciphersuite_t option"
  alerts_sent :: "(alert_level \<times> alert_msg) list"
  checksum_input :: "byte list"
  records_written :: "byte list list"

definition in_msg :: "ssl_context \<Rightarrow> buffer" where
  "in_msg ssl = ptr_add (in_hdr ssl) 5"

text \<open>
  The collaborators outside this file (record layer, key schedule, ciphersuite table,
  Diffie-Hellman, clock), each as the status and the data it hands back.
\<close>
record collaborators =
  config :: build_config
  fetch_input :: "ssl_context \<Rightarrow> nat \<Rightarrow> status \<times> buffer \<times> nat"
  send_alert :: "ssl_context \<Rightarrow> alert_level \<Rightarrow> alert_msg \<Rightarrow> status"
  read_record :: "ssl_context \<Rightarrow> status \<times> buffer \<times> nat \<times> nat \<times> byte"
  write_record :: "ssl_context \<Rightarrow> status"
  derive_keys :: "ssl_context \<Rightarrow> status"
  ciphersuite_from_id :: "int \<Rightarrow> ssl_ciphersuite_t option"
  dhm_read_public :: "byte list \<Rightarrow> status"
  dhm_calc_secret :: "ssl_context \<Rightarrow> status \<times> buffer \<times> nat"
  ecdh_read_public :: "byte list \<Rightarrow> status"
  ecdh_calc_secret :: "ssl_context \<Rightarrow> status \<times> buffer \<times> nat"
  time_now :: nat

subsection \<open>Extension parsers\<close>

text \<open>
  The loop of \<^verbatim>\<open>ssl_parse_signature_algorithms_ext\<close>, with \<open>p = buf + off\<close> and
  \<open>sz\<close> the \<^verbatim>\<open>sig_alg_list_size\<close> left: \<open>Some h\<close> when it leaves by
  \<^verbatim>\<open>break\<close> after storing \<open>h\<close>, \<open>None\<close> when the list is exhausted. The loop is
  only entered with an even \<open>sz\<close>, so \<open>sz - 2\<close> never wraps.
\<close>
fun sig_alg_loop :: "build_config \<Rightarrow> buffer \<Rightarrow> nat \<Rightarrow> nat \<Rightarrow> byte option" where
  "sig_alg_loop cfg buf off sz =
     (if sz > 0 then
        (if buf (off + 1) \<noteq> SSL_SIG_RSA then sig_alg_loop cfg buf (off + 2) (sz - 2)
         else if POLARSSL_SHA512_C cfg \<and> buf off = SSL_HASH_SHA512 then Some SSL_HASH_SHA512
         else if POLARSSL_SHA512_C cfg \<and> buf off = SSL_HASH_SHA384 then Some SSL_HASH_SHA384
         else if POLARSSL_SHA256_C cfg \<and> buf off = SSL_HASH_SHA256 then Some SSL_HASH_SHA256
         else if POLARSSL_SHA256_C cfg \<and> buf off = SSL_HASH_SHA224 then Some SSL_HASH_SHA224
         else if buf off = SSL_HASH_SHA1 then Some SSL_HASH_SHA1
         else if buf off = SSL_HASH_MD5 then Some SSL_HASH_MD5
         else sig_alg_loop cfg buf (off + 2) (sz - 2))
      else None)"

definition ssl_parse_signature_algorithms_ext ::
  "build_config \<Rightarrow> ssl_context \<Rightarrow> buffer \<Rightarrow> nat \<Rightarrow> status \<times> ssl_context" where
  "ssl_parse_signature_algorithms_ext cfg ssl buf len =
     (let sig_alg_list_size = be16 (buf 0) (buf 1) in
      if sig_alg_list_size + 2 \<noteq> len \<or> sig_alg_list_size mod 2 \<noteq> 0
      then (Some POLARSSL_ERR_SSL_BAD_HS_CLIENT_HELLO, ssl)
      else (case sig_alg_loop cfg buf 2 sig_alg_list_size of
              Some h \<Rightarrow> (None, ssl\<lparr>handshake := (handshake ssl)\<lparr>sig_alg := uint h\<rparr>\<rparr>)
            | None \<Rightarrow> (None, ssl)))"

text \<open>
  The loop of \<^verbatim>\<open>ssl_parse_supported_point_formats\<close>, \<open>p = buf + off\<close>: \<open>Some f\<close>
  when it stores \<open>f\<close> and returns, \<open>None\<close> when the list is exhausted.
\<close>
fun point_format_loop :: "buffer \<Rightarrow> nat \<Rightarrow> nat \<Rightarrow> byte option" where
  "point_format_loop buf off sz =
     (if sz > 0 then
        (if buf off = POLARSSL_ECP_PF_UNCOMPRESSED \<or> buf off = POLARSSL_ECP_PF_COMPRESSED
         then Some (buf off)
         else point_format_loop buf (off + 1) (sz - 1))
      else None)"

definition ssl_parse_supported_point_formats ::
  "ssl_context \<Rightarrow> buffer \<Rightarrow> nat \<Rightarrow> status \<times> ssl_context" where
  "ssl_parse_supported_point_formats ssl buf len =
     (let list_size = unat (buf 0) in
      if list_size + 1 \<noteq> len
      then (Some POLARSSL_ERR_SSL_BAD_HS_CLIENT_HELLO, ssl)
      else (case point_format_loop buf 2 list_size of
              Some f \<Rightarrow> (None, ssl\<lparr>handshake := (handshake ssl)\<lparr>ec_point_format := uint f\<rparr>\<rparr>)
            | None \<Rightarrow> (None, ssl)))"


subsection \<open>Calls into the record layer\<close>

text \<open>
  Modelled from the spec: \<^verbatim>\<open>ssl_fetch_input\<close>, \<^verbatim>\<open>ssl_send_alert_message\<close> and
  \<^verbatim>\<open>ssl_send_fatal_handshake_failure\<close> belong to the record layer, which is not
  among the sources. Fetching "at least N bytes into the inbound buffer" leaves the
  array as the transport filled it and, on success, \<open>in_left\<close> at no less than the
  count asked for; sending an alert hands it to the record layer and returns the
  status of the write.
\<close>
definition ssl_fetch_input :: "collaborators \<Rightarrow> ssl_context \<Rightarrow> nat \<Rightarrow> status \<times> ssl_context" where
  "ssl_fetch_input E ssl nb_want =
     (case fetch_input E ssl nb_want of
        (None, b, l) \<Rightarrow> (None, ssl\<lparr>in_hdr := b, in_left := max (in_left ssl) nb_want\<rparr>)
      | (Some r, b, l) \<Rightarrow> (Some r, ssl\<lparr>in_hdr := b, in_left := l\<rparr>))"

definition ssl_send_alert_message ::
  "collaborators \<Rightarrow> ssl_context \<Rightarrow> alert_level \<Rightarrow> alert_msg \<Rightarrow> status \<times> ssl_context" where
  "ssl_send_alert_message E ssl level msg =
     (send_alert E ssl level msg, ssl\<lparr>alerts_sent := alerts_sent ssl @ [(level, msg)]\<rparr>)"

definition ssl_send_fatal_handshake_failure ::
  "collaborators \<Rightarrow> ssl_context \<Rightarrow> status \<times> ssl_context" where
  "ssl_send_fatal_handshake_failure E ssl =
     ssl_send_alert_message E ssl SSL_ALERT_LEVEL_FATAL SSL_ALERT_MSG_HANDSHAKE_FAILURE"

text \<open>
  The recurring exit
  \<^verbatim>\<open>if( ( ret = ssl_send_fatal_handshake_failure( ssl ) ) != 0 ) return( ret ); return( e );\<close>
\<close>
definition fatal_handshake_failure_return ::
  "collaborators \<Rightarrow> ssl_context \<Rightarrow> error \<Rightarrow> status \<times> ssl_context" where
  "fatal_handshake_failure_return E ssl e =
     (case ssl_send_fatal_handshake_failure E ssl of
        (Some ret, ssl') \<Rightarrow> (Some ret, ssl')
      | (None, ssl') \<Rightarrow> (Some e, ssl'))"

text \<open>\<^verbatim>\<open>ssl->handshake->update_checksum( ssl, buf, n )\<close>: the bytes join the transcript.\<close>
definition update_checksum :: "ssl_context \<Rightarrow> buffer \<Rightarrow> nat \<Rightarrow> ssl_context" where
  "update_checksum ssl buf n = ssl\<lparr>checksum_input := checksum_input ssl @ bytes_at buf n\<rparr>"

subsection \<open>The other extensions\<close>

text \<open>
  \<^verbatim>\<open>ssl_parse_servername_ext\<close>, with \<open>f\<close> the callback \<^verbatim>\<open>ssl->f_sni\<close>, which the
  caller has checked not to be \<^verbatim>\<open>NULL\<close>. The loop runs at \<open>p = buf + off\<close>; it leaves
  only when \<^verbatim>\<open>servername_list_size\<close> is 0, so the test after it never fires.
\<close>
fun servername_loop ::
  "(byte list \<Rightarrow> status) \<Rightarrow> collaborators \<Rightarrow> ssl_context \<Rightarrow> buffer \<Rightarrow> nat \<Rightarrow> nat
     \<Rightarrow> status \<times> ssl_context" where
  "servername_loop f E ssl buf off sz =
     (if sz > 0 then
        (if be16 (buf (off + 1)) (buf (off + 2)) + 3 > sz
         then (Some POLARSSL_ERR_SSL_BAD_HS_CLIENT_HELLO, ssl)
         else if buf off = TLS_EXT_SERVERNAME_HOSTNAME then
           (case f (bytes_at (ptr_add buf (off + 3)) (be16 (buf (off + 1)) (buf (off + 2)))) of
              Some ret \<Rightarrow>
                (Some POLARSSL_ERR_SSL_BAD_HS_CLIENT_HELLO,
                 snd (ssl_send_alert_message E ssl SSL_ALERT_LEVEL_FATAL
                        SSL_ALERT_MSG_UNRECOGNIZED_NAME))
            | None \<Rightarrow> (None, ssl))
         else servername_loop f E ssl buf (off + (be16 (buf (off + 1)) (buf (off + 2)) + 3))
                (sz - (be16 (buf (off + 1)) (buf (off + 2)) + 3)))
      else (None, ssl))"

definition ssl_parse_servername_ext ::
  "(byte list \<Rightarrow> status) \<Rightarrow> collaborators \<Rightarrow> ssl_context \<Rightarrow> buffer \<Rightarrow> nat
     \<Rightarrow> status \<times> ssl_context" where
  "ssl_parse_servername_ext f E ssl buf len =
     (let servername_list_size = be16 (buf 0) (buf 1) in
      if servername_list_size + 2 \<noteq> len
      then (Some POLARSSL_ERR_SSL_BAD_HS_CLIENT_HELLO, ssl)
      else servername_loop f E ssl buf 2 servername_list_size)"

definition ssl_parse_renegotiation_info ::
  "collaborators \<Rightarrow> ssl_context \<Rightarrow> buffer \<Rightarrow> nat \<Rightarrow> status \<times> ssl_context" where
  "ssl_parse_renegotiation_info E ssl buf len =
     (if renegotiation ssl = SSL_INITIAL_HANDSHAKE then
        (if len \<noteq> 1 \<or> buf 0 \<noteq> 0
         then fatal_handshake_failure_return E ssl POLARSSL_ERR_SSL_BAD_HS_CLIENT_HELLO
         else (None, ssl\<lparr>secure_renegotiation := SSL_SECURE_RENEGOTIATION\<rparr>))
      else
        (if len \<noteq> 1 + verify_data_len ssl \<or>
            unat (buf 0) \<noteq> verify_data_len ssl \<or>
            \<not> memeq (ptr_add buf 1) (peer_verify_data ssl) (verify_data_len ssl)
         then fatal_handshake_failure_return E ssl POLARSSL_ERR_SSL_BAD_HS_CLIENT_HELLO
         else (None, ssl)))"

fun elliptic_curves_loop :: "build_config \<Rightarrow> buffer \<Rightarrow> nat \<Rightarrow> nat \<Rightarrow> byte option" where
  "elliptic_curves_loop cfg buf off sz =
     (if sz > 0 then
        (if POLARSSL_ECP_DP_SECP192R1_ENABLED cfg \<and>
            buf off = 0 \<and> buf (off + 1) = POLARSSL_ECP_DP_SECP192R1 then Some (buf (off + 1))
         else if POLARSSL_ECP_DP_SECP224R1_ENABLED cfg \<and>
            buf off = 0 \<and> buf (off + 1) = POLARSSL_ECP_DP_SECP224R1 then Some (buf (off + 1))
         else if POLARSSL_ECP_DP_SECP256R1_ENABLED cfg \<and>
            buf off = 0 \<and> buf (off + 1) = POLARSSL_ECP_DP_SECP256R1 then Some (buf (off + 1))
         else if POLARSSL_ECP_DP_SECP384R1_ENABLED cfg \<and>
            buf off = 0 \<and> buf (off + 1) = POLARSSL_ECP_DP_SECP384R1 then Some (buf (off + 1))
         else if POLARSSL_ECP_DP_SECP521R1_ENABLED cfg \<and>
            buf off = 0 \<and> buf (off + 1) = POLARSSL_ECP_DP_SECP521R1 then Some (buf (off + 1))
         else elliptic_curves_loop cfg buf (off + 2) (sz - 2))
      else None)"

definition ssl_parse_supported_elliptic_curves ::
  "build_config \<Rightarrow> ssl_context \<Rightarrow> buffer \<Rightarrow> nat \<Rightarrow> status \<times> ssl_context" where
  "ssl_parse_supported_elliptic_curves cfg ssl buf len =
     (let list_size = be16 (buf 0) (buf 1) in
      if list_size + 2 \<noteq> len \<or> list_size mod 2 \<noteq> 0
      then (Some POLARSSL_ERR_SSL_BAD_HS_CLIENT_HELLO, ssl)
      else (case elliptic_curves_loop cfg buf 2 list_size of
              Some c \<Rightarrow> (None, ssl\<lparr>handshake := (handshake ssl)\<lparr>ec_curve := uint c\<rparr>\<rparr>)
            | None \<Rightarrow> (None, ssl)))"

subsection \<open>ClientHello: the parts shared by both shapes\<close>

text \<open>
  Lines 632--649 of \<^verbatim>\<open>ssl_parse_client_hello\<close> and 350--366 of
  \<^verbatim>\<open>ssl_parse_client_hello_v2\<close>, the same statements on \<^verbatim>\<open>buf[4], buf[5]\<close> and on
  \<^verbatim>\<open>buf[3], buf[4]\<close>: \<open>Inl\<close> is the function returning, \<open>Inr\<close> the state it goes on
  with. The status of the alert is not looked at.
\<close>
definition negotiate_version ::
  "collaborators \<Rightarrow> ssl_context \<Rightarrow> byte \<Rightarrow> byte \<Rightarrow> (status \<times> ssl_context) + ssl_context" where
  "negotiate_version E ssl maj mnr =
     (let ssl1 = ssl\<lparr>major_ver := uint SSL_MAJOR_VERSION_3,
                     minor_ver := (if uint mnr \<le> max_minor_ver ssl then uint mnr
                                   else max_minor_ver ssl)\<rparr>
      in if minor_ver ssl1 < min_minor_ver ssl1
         then Inl (Some POLARSSL_ERR_SSL_BAD_HS_PROTOCOL_VERSION,
                   snd (ssl_send_alert_message E ssl1 SSL_ALERT_LEVEL_FATAL
                          SSL_ALERT_MSG_PROTOCOL_VERSION))
         else Inr (ssl1\<lparr>handshake := (handshake ssl1)
                         \<lparr>hs_max_major_ver := uint maj, hs_max_minor_ver := uint mnr\<rparr>\<rparr>))"

text \<open>
  The scan for \<^verbatim>\<open>TLS_EMPTY_RENEGOTIATION_INFO_SCSV\<close> over the two-byte entries at
  \<open>p\<close> (lines 743--760), and over the three-byte entries of the SSLv2 shape (lines
  442--459): whether some entry is the signalling value.
\<close>
function scsv_loop :: "buffer \<Rightarrow> nat \<Rightarrow> nat \<Rightarrow> bool" where
  "scsv_loop p i ciph_len =
     (if i < ciph_len then
        (if p i = 0 \<and> p (i + 1) = SSL_EMPTY_RENEGOTIATION_INFO then True
         else scsv_loop p (i + 2) ciph_len)
      else False)"
  by pat_completeness auto
termination
  by (relation "measure (\<lambda>(p, i, ciph_len). ciph_len - i)") auto

function scsv_loop_v2 :: "buffer \<Rightarrow> nat \<Rightarrow> nat \<Rightarrow> bool" where
  "scsv_loop_v2 p i ciph_len =
     (if i < ciph_len then
        (if p i = 0 \<and> p (i + 1) = 0 \<and> p (i + 2) = SSL_EMPTY_RENEGOTIATION_INFO then True
         else scsv_loop_v2 p (i + 3) ciph_len)
      else False)"
  by pat_completeness auto
termination
  by (relation "measure (\<lambda>(p, i, ciph_len). ciph_len - i)") auto

text \<open>What both functions do once the scan has found the value, or has not.\<close>
definition check_scsv ::
  "collaborators \<Rightarrow> ssl_context \<Rightarrow> bool \<Rightarrow> (status \<times> ssl_context) + ssl_context" where
  "check_scsv E ssl found =
     (if found then
        (if renegotiation ssl = SSL_RENEGOTIATION
         then Inl (fatal_handshake_failure_return E ssl POLARSSL_ERR_SSL_BAD_HS_CLIENT_HELLO)
         else Inr (ssl\<lparr>secure_renegotiation := SSL_SECURE_RENEGOTIATION\<rparr>))
      else Inr ssl)"


subsection \<open>Ciphersuite selection\<close>

text \<open>
  How the search through the server's list ends: at \<^verbatim>\<open>have_ciphersuite\<close> with
  \<^verbatim>\<open>ciphersuites[i]\<close> and its description, at the return of
  \<^verbatim>\<open>POLARSSL_ERR_SSL_BAD_INPUT_DATA\<close>, or at the terminating 0 of the list.
\<close>
datatype cs_search = HAVE_CIPHERSUITE int ssl_ciphersuite_t | INFO_NOT_FOUND | NONE_IN_COMMON

text \<open>
  The inner loop of lines 886--911 for one entry \<open>c\<close> of the server's list, over the
  client's two-byte entries at \<open>p\<close>.
\<close>
function ciphersuite_inner ::
  "collaborators \<Rightarrow> ssl_context \<Rightarrow> buffer \<Rightarrow> int \<Rightarrow> nat \<Rightarrow> nat \<Rightarrow> cs_search" where
  "ciphersuite_inner E ssl p c j ciph_len =
     (if j < ciph_len then
        (if uint (p j) = (drop_bit 8 c) AND 0xFF \<and> uint (p (j + 1)) = c AND 0xFF then
           (case ciphersuite_from_id E c of
              None \<Rightarrow> INFO_NOT_FOUND
            | Some info \<Rightarrow>
                if min_minor_ver_cs info > minor_ver ssl \<or> max_minor_ver_cs info < minor_ver ssl
                then ciphersuite_inner E ssl p c (j + 2) ciph_len
                else if flags info AND POLARSSL_CIPHERSUITE_EC \<noteq> 0 \<and>
                        ec_curve (handshake ssl) = 0
                then ciphersuite_inner E ssl p c (j + 2) ciph_len
                else HAVE_CIPHERSUITE c info)
         else ciphersuite_inner E ssl p c (j + 2) ciph_len)
      else NONE_IN_COMMON)"
  by pat_completeness auto
termination
  by (relation "measure (\<lambda>(E, ssl, p, c, j, ciph_len). ciph_len - j)") auto

text \<open>
  The outer loop over \<^verbatim>\<open>ciphersuites[i]\<close>; the list stands for the array up to its
  terminating 0 (the end of the list ends the search as the 0 does).
\<close>
fun ciphersuite_search ::
  "collaborators \<Rightarrow> ssl_context \<Rightarrow> buffer \<Rightarrow> nat \<Rightarrow> int list \<Rightarrow> cs_search" where
  "ciphersuite_search E ssl p ciph_len [] = NONE_IN_COMMON"
| "ciphersuite_search E ssl p ciph_len (c # cs) =
     (if c = 0 then NONE_IN_COMMON
      else (case ciphersuite_inner E ssl p c 0 ciph_len of
              NONE_IN_COMMON \<Rightarrow> ciphersuite_search E ssl p ciph_len cs
            | r \<Rightarrow> r))"

text \<open>The same two loops in \<^verbatim>\<open>ssl_parse_client_hello_v2\<close> (lines 462--488).\<close>
function ciphersuite_inner_v2 ::
  "collaborators \<Rightarrow> ssl_context \<Rightarrow> buffer \<Rightarrow> int \<Rightarrow> nat \<Rightarrow> nat \<Rightarrow> cs_search" where
  "ciphersuite_inner_v2 E ssl p c j ciph_len =
     (if j < ciph_len then
        (if p j = 0 \<and> p (j + 1) = 0 \<and> (drop_bit 8 c) AND 0xFF = 0 \<and>
            uint (p (j + 2)) = c AND 0xFF then
           (case ciphersuite_from_id E c of
              None \<Rightarrow> INFO_NOT_FOUND
            | Some info \<Rightarrow>
                if min_minor_ver_cs info > minor_ver ssl \<or> max_minor_ver_cs info < minor_ver ssl
                then ciphersuite_inner_v2 E ssl p c (j + 3) ciph_len
                else HAVE_CIPHERSUITE c info)
         else ciphersuite_inner_v2 E ssl p c (j + 3) ciph_len)
      else NONE_IN_COMMON)"
  by pat_completeness auto
termination
  by (relation "measure (\<lambda>(E, ssl, p, c, j, ciph_len). ciph_len - j)") auto

fun ciphersuite_search_v2 ::
  "collaborators \<Rightarrow> ssl_context \<Rightarrow> buffer \<Rightarrow> nat \<Rightarrow> int list \<Rightarrow> cs_search" where
  "ciphersuite_search_v2 E ssl p ciph_len [] = NONE_IN_COMMON"
| "ciphersuite_search_v2 E ssl p ciph_len (c # cs) =
     (if c = 0 then NONE_IN_COMMON
      else (case ciphersuite_inner_v2 E ssl p c 0 ciph_len of
              NONE_IN_COMMON \<Rightarrow> ciphersuite_search_v2 E ssl p ciph_len cs
            | r \<Rightarrow> r))"

text \<open>
  Lines 883--931: the search and what follows it. (\<^verbatim>\<open>ssl_optimize_checksum\<close> only
  picks the transcript hash function and is left out.)
\<close>
definition client_hello_select ::
  "collaborators \<Rightarrow> ssl_context \<Rightarrow> buffer \<Rightarrow> nat \<Rightarrow> status \<times> ssl_context" where
  "client_hello_select E ssl p ciph_len =
     (case ciphersuite_search E ssl p ciph_len (ciphersuite_list ssl (minor_ver ssl)) of
        INFO_NOT_FOUND \<Rightarrow> (Some POLARSSL_ERR_SSL_BAD_INPUT_DATA, ssl)
      | NONE_IN_COMMON \<Rightarrow>
          fatal_handshake_failure_return E ssl POLARSSL_ERR_SSL_NO_CIPHER_CHOSEN
      | HAVE_CIPHERSUITE c info \<Rightarrow>
          (None, ssl\<lparr>session_negotiate := (session_negotiate ssl)\<lparr>ciphersuite := c\<rparr>,
                     ciphersuite_info := Some info,
                     in_left := 0,
                     state := state ssl + 1\<rparr>))"

subsection \<open>ClientHello, the SSLv2 shape\<close>

text \<open>Lines 304--374: up to the fetch of the record and its checksum.\<close>
definition client_hello_v2_header ::
  "collaborators \<Rightarrow> ssl_context \<Rightarrow> (status \<times> ssl_context) + ssl_context" where
  "client_hello_v2_header E ssl =
     (if renegotiation ssl \<noteq> SSL_INITIAL_HANDSHAKE
      then Inl (fatal_handshake_failure_return E ssl POLARSSL_ERR_SSL_BAD_HS_CLIENT_HELLO)
      else let buf = in_hdr ssl in
      if buf 2 \<noteq> SSL_HS_CLIENT_HELLO \<or> buf 3 \<noteq> SSL_MAJOR_VERSION_3
      then Inl (Some POLARSSL_ERR_SSL_BAD_HS_CLIENT_HELLO, ssl)
      else let n = be16 (buf 0) (buf 1) AND 0x7FFF in
      if n < 17 \<or> n > 512
      then Inl (Some POLARSSL_ERR_SSL_BAD_HS_CLIENT_HELLO, ssl)
      else (case negotiate_version E ssl (buf 3) (buf 4) of
              Inl r \<Rightarrow> Inl r
            | Inr ssl1 \<Rightarrow>
                (case ssl_fetch_input E ssl1 (2 + n) of
                   (Some ret, ssl2) \<Rightarrow> Inl (Some ret, ssl2)
                 | (None, ssl2) \<Rightarrow> Inr (update_checksum ssl2 (ptr_add (in_hdr ssl2) 2) n))))"

text \<open>
  Lines 376--518. \<open>in_left ssl - 5\<close> does not wrap: the fetch before it has left
  \<open>in_left\<close> at 19 or more.
\<close>
definition client_hello_v2_body ::
  "collaborators \<Rightarrow> ssl_context \<Rightarrow> status \<times> ssl_context" where
  "client_hello_v2_body E ssl =
     (let buf = in_msg ssl;
          n = in_left ssl - 5;
          ciph_len = be16 (buf 0) (buf 1);
          sess_len = be16 (buf 2) (buf 3);
          chal_len = be16 (buf 4) (buf 5)
      in
      if ciph_len < 3 \<or> ciph_len mod 3 \<noteq> 0
      then (Some POLARSSL_ERR_SSL_BAD_HS_CLIENT_HELLO, ssl)
      else if sess_len > 32
      then (Some POLARSSL_ERR_SSL_BAD_HS_CLIENT_HELLO, ssl)
      else if chal_len < 8 \<or> chal_len > 32
      then (Some POLARSSL_ERR_SSL_BAD_HS_CLIENT_HELLO, ssl)
      else if n \<noteq> 6 + ciph_len + sess_len + chal_len
      then (Some POLARSSL_ERR_SSL_BAD_HS_CLIENT_HELLO, ssl)
      else
        let ssl1 = ssl\<lparr>session_negotiate := (session_negotiate ssl)
                         \<lparr>sess_length := sess_len,
                          sess_id := memcpy (memset (sess_id (session_negotiate ssl)) 0 32) 0
                                       (ptr_add buf (6 + ciph_len)) sess_len\<rparr>,
                       handshake := (handshake ssl)
                         \<lparr>randbytes := memcpy (memset (randbytes (handshake ssl)) 0 64)
                                         (32 - chal_len)
                                         (ptr_add buf (6 + ciph_len + sess_len)) chal_len\<rparr>\<rparr>
        in
        (case check_scsv E ssl1 (scsv_loop_v2 (ptr_add buf 6) 0 ciph_len) of
           Inl r \<Rightarrow> r
         | Inr ssl2 \<Rightarrow>
             (case ciphersuite_search_v2 E ssl2 (ptr_add buf 6) ciph_len
                     (ciphersuite_list ssl2 (minor_ver ssl2)) of
                INFO_NOT_FOUND \<Rightarrow> (Some POLARSSL_ERR_SSL_BAD_INPUT_DATA, ssl2)
              | NONE_IN_COMMON \<Rightarrow> (Some POLARSSL_ERR_SSL_NO_CIPHER_CHOSEN, ssl2)
              | HAVE_CIPHERSUITE c info \<Rightarrow>
                  let ssl3 = ssl2\<lparr>session_negotiate := (session_negotiate ssl2)
                                     \<lparr>ciphersuite := c\<rparr>,
                                   ciphersuite_info := Some info\<rparr>
                  in
                  if secure_renegotiation ssl3 = SSL_LEGACY_RENEGOTIATION \<and>
                     allow_legacy_renegotiation ssl3 = SSL_LEGACY_BREAK_HANDSHAKE
                  then fatal_handshake_failure_return E ssl3
                         POLARSSL_ERR_SSL_BAD_HS_CLIENT_HELLO
                  else (None, ssl3\<lparr>in_left := 0, state := state ssl3 + 1\<rparr>))))"

definition ssl_parse_client_hello_v2 ::
  "collaborators \<Rightarrow> ssl_context \<Rightarrow> status \<times> ssl_context" where
  "ssl_parse_client_hello_v2 E ssl =
     (case client_hello_v2_header E ssl of
        Inl r \<Rightarrow> r
      | Inr ssl1 \<Rightarrow> client_hello_v2_body E ssl1)"


subsection \<open>ClientHello, the modern shape\<close>

text \<open>
  Lines 552--589, after the first fetch and the test for the SSLv2 shape: the record
  header and the fetch of the record.
\<close>
definition client_hello_record ::
  "collaborators \<Rightarrow> ssl_context \<Rightarrow> (status \<times> ssl_context) + ssl_context" where
  "client_hello_record E ssl =
     (let buf = in_hdr ssl in
      if buf 0 \<noteq> SSL_MSG_HANDSHAKE \<or> buf 1 \<noteq> SSL_MAJOR_VERSION_3
      then Inl (Some POLARSSL_ERR_SSL_BAD_HS_CLIENT_HELLO, ssl)
      else let n = be16 (buf 3) (buf 4) in
      if n < 45 \<or> n > 512
      then Inl (Some POLARSSL_ERR_SSL_BAD_HS_CLIENT_HELLO, ssl)
      else if renegotiation ssl = SSL_INITIAL_HANDSHAKE then
        (case ssl_fetch_input E ssl (5 + n) of
           (Some ret, ssl1) \<Rightarrow> Inl (Some ret, ssl1)
         | (None, ssl1) \<Rightarrow> Inr ssl1)
      else Inr ssl)"

text \<open>
  The record length \<open>n\<close> of lines 592--595. \<open>in_left ssl - 5\<close> does not wrap: in an
  initial handshake the fetch before it has left \<open>in_left\<close> at 50 or more.
\<close>
definition client_hello_n :: "ssl_context \<Rightarrow> nat" where
  "client_hello_n ssl =
     (if renegotiation ssl = SSL_INITIAL_HANDSHAKE then in_left ssl - 5 else in_msglen ssl)"

text \<open>Lines 591--660: checksum, handshake header, version, client random.\<close>
definition client_hello_header ::
  "collaborators \<Rightarrow> ssl_context \<Rightarrow> (status \<times> ssl_context) + ssl_context" where
  "client_hello_header E ssl =
     (let buf = in_msg ssl;
          n = client_hello_n ssl;
          ssl1 = update_checksum ssl buf n
      in
      if buf 0 \<noteq> SSL_HS_CLIENT_HELLO \<or> buf 4 \<noteq> SSL_MAJOR_VERSION_3
      then Inl (Some POLARSSL_ERR_SSL_BAD_HS_CLIENT_HELLO, ssl1)
      else (case negotiate_version E ssl1 (buf 4) (buf 5) of
              Inl r \<Rightarrow> Inl r
            | Inr ssl2 \<Rightarrow>
                let ssl3 = ssl2\<lparr>handshake := (handshake ssl2)
                                   \<lparr>randbytes := memcpy (randbytes (handshake ssl2)) 0
                                                   (ptr_add buf 6) 32\<rparr>\<rparr>
                in
                if buf 1 \<noteq> 0 \<or> n \<noteq> 4 + be16 (buf 2) (buf 3)
                then Inl (Some POLARSSL_ERR_SSL_BAD_HS_CLIENT_HELLO, ssl3)
                else Inr ssl3))"

text \<open>
  Lines 665--717: the session id and the lengths of the lists, read at the offsets the
  lengths before them give. \<open>Inr\<close> carries \<^verbatim>\<open>sess_len\<close>, \<^verbatim>\<open>ciph_len\<close>,
  \<^verbatim>\<open>comp_len\<close> and \<^verbatim>\<open>ext_len\<close>.
\<close>
definition client_hello_lengths ::
  "ssl_context \<Rightarrow> buffer \<Rightarrow> nat
     \<Rightarrow> (status \<times> ssl_context) + (ssl_context \<times> nat \<times> nat \<times> nat \<times> nat)" where
  "client_hello_lengths ssl buf n =
     (let sess_len = unat (buf 38) in
      if sess_len > 32
      then Inl (Some POLARSSL_ERR_SSL_BAD_HS_CLIENT_HELLO, ssl)
      else
        let ssl1 = ssl\<lparr>session_negotiate := (session_negotiate ssl)
                         \<lparr>sess_length := sess_len,
                          sess_id := memcpy (memset (sess_id (session_negotiate ssl)) 0 32) 0
                                       (ptr_add buf 39) sess_len\<rparr>\<rparr>;
            ciph_len = be16 (buf (39 + sess_len)) (buf (40 + sess_len))
        in
        if ciph_len < 2 \<or> ciph_len > 256 \<or> ciph_len mod 2 \<noteq> 0
        then Inl (Some POLARSSL_ERR_SSL_BAD_HS_CLIENT_HELLO, ssl1)
        else
          let comp_len = unat (buf (41 + sess_len + ciph_len)) in
          if comp_len < 1 \<or> comp_len > 16
          then Inl (Some POLARSSL_ERR_SSL_BAD_HS_CLIENT_HELLO, ssl1)
          else if n > 42 + sess_len + ciph_len + comp_len then
            (let ext_len = be16 (buf (42 + sess_len + ciph_len + comp_len))
                                (buf (43 + sess_len + ciph_len + comp_len))
             in
             if (ext_len > 0 \<and> ext_len < 4) \<or>
                n \<noteq> 44 + sess_len + ciph_len + comp_len + ext_len
             then Inl (Some POLARSSL_ERR_SSL_BAD_HS_CLIENT_HELLO, ssl1)
             else Inr (ssl1, sess_len, ciph_len, comp_len, ext_len))
          else Inr (ssl1, sess_len, ciph_len, comp_len, 0))"

text \<open>
  The same lines, listing instead the offsets of \<^verbatim>\<open>buf\<close> they dereference, in the
  order they do (the \<^verbatim>\<open>memcpy\<close> of the session id reads \<open>39 .. 38 + sess_len\<close>).
\<close>
definition client_hello_lengths_reads :: "buffer \<Rightarrow> nat \<Rightarrow> nat list" where
  "client_hello_lengths_reads buf n =
     (let sess_len = unat (buf 38) in
      [38] @
      (if sess_len > 32 then []
       else
         map (\<lambda>i. 39 + i) [0..<sess_len] @ [39 + sess_len, 40 + sess_len] @
         (let ciph_len = be16 (buf (39 + sess_len)) (buf (40 + sess_len)) in
          if ciph_len < 2 \<or> ciph_len > 256 \<or> ciph_len mod 2 \<noteq> 0 then []
          else
            [41 + sess_len + ciph_len] @
            (let comp_len = unat (buf (41 + sess_len + ciph_len)) in
             if comp_len < 1 \<or> comp_len > 16 then []
             else if n > 42 + sess_len + ciph_len + comp_len
             then [42 + sess_len + ciph_len + comp_len, 43 + sess_len + ciph_len + comp_len]
             else []))))"

text \<open>Lines 719--729: the compression method, over the \<open>comp_len\<close> bytes at \<open>p\<close>.\<close>
function deflate_loop :: "buffer \<Rightarrow> nat \<Rightarrow> nat \<Rightarrow> bool" where
  "deflate_loop p i comp_len =
     (if i < comp_len then
        (if p i = SSL_COMPRESS_DEFLATE then True else deflate_loop p (i + 1) comp_len)
      else False)"
  by pat_completeness auto
termination
  by (relation "measure (\<lambda>(p, i, comp_len). comp_len - i)") auto

definition select_compression ::
  "build_config \<Rightarrow> ssl_context \<Rightarrow> buffer \<Rightarrow> nat \<Rightarrow> ssl_context" where
  "select_compression cfg ssl p comp_len =
     ssl\<lparr>session_negotiate := (session_negotiate ssl)
           \<lparr>compression := (if POLARSSL_ZLIB_SUPPORT cfg \<and> deflate_loop p 0 comp_len
                             then SSL_COMPRESS_DEFLATE else SSL_COMPRESS_NULL)\<rparr>\<rparr>"

text \<open>
  The \<^verbatim>\<open>switch( ext_id )\<close> of lines 776--828 on one extension, its body at \<open>body\<close>:
  the status of the parser called, the state, and \<^verbatim>\<open>renegotiation_info_seen\<close>.
\<close>
definition ext_dispatch ::
  "collaborators \<Rightarrow> ssl_context \<Rightarrow> nat \<Rightarrow> buffer \<Rightarrow> nat \<Rightarrow> bool
     \<Rightarrow> status \<times> ssl_context \<times> bool" where
  "ext_dispatch E ssl ext_id body ext_size seen =
     (if ext_id = TLS_EXT_SERVERNAME then
        (case f_sni ssl of
           None \<Rightarrow> (None, ssl, seen)
         | Some f \<Rightarrow>
             (case ssl_parse_servername_ext f E ssl body ext_size of (ret, ssl') \<Rightarrow>
                (ret, ssl', seen)))
      else if ext_id = TLS_EXT_RENEGOTIATION_INFO then
        (case ssl_parse_renegotiation_info E ssl body ext_size of (ret, ssl') \<Rightarrow>
           (ret, ssl', True))
      else if ext_id = TLS_EXT_SIG_ALG then
        (if renegotiation ssl = SSL_RENEGOTIATION then (None, ssl, seen)
         else (case ssl_parse_signature_algorithms_ext (config E) ssl body ext_size of
                 (ret, ssl') \<Rightarrow> (ret, ssl', seen)))
      else if POLARSSL_ECP_C (config E) \<and> ext_id = TLS_EXT_SUPPORTED_ELLIPTIC_CURVES then
        (case ssl_parse_supported_elliptic_curves (config E) ssl body ext_size of
           (ret, ssl') \<Rightarrow> (ret, ssl', seen))
      else if POLARSSL_ECP_C (config E) \<and> ext_id = TLS_EXT_SUPPORTED_POINT_FORMATS then
        (case ssl_parse_supported_point_formats ssl body ext_size of
           (ret, ssl') \<Rightarrow> (ret, ssl', seen))
      else (None, ssl, seen))"

text \<open>
  The walk of lines 762--838 with \<open>ext = p + off\<close>. \<open>ext_len - (4 + ext_size)\<close> does
  not wrap: the test before it has \<open>ext_size + 4 \<le> ext_len\<close>.
\<close>
function ext_loop ::
  "collaborators \<Rightarrow> ssl_context \<Rightarrow> buffer \<Rightarrow> nat \<Rightarrow> nat \<Rightarrow> bool
     \<Rightarrow> (status \<times> ssl_context) + (ssl_context \<times> bool)" where
  "ext_loop E ssl p off ext_len seen =
     (if ext_len \<noteq> 0 then
        (if be16 (p (off + 2)) (p (off + 3)) + 4 > ext_len
         then Inl (Some POLARSSL_ERR_SSL_BAD_HS_CLIENT_HELLO, ssl)
         else
           (case ext_dispatch E ssl (be16 (p off) (p (off + 1))) (ptr_add p (off + 4))
                   (be16 (p (off + 2)) (p (off + 3))) seen of
              (Some ret, ssl', seen') \<Rightarrow> Inl (Some ret, ssl')
            | (None, ssl', seen') \<Rightarrow>
                if ext_len - (4 + be16 (p (off + 2)) (p (off + 3))) > 0 \<and>
                   ext_len - (4 + be16 (p (off + 2)) (p (off + 3))) < 4
                then Inl (Some POLARSSL_ERR_SSL_BAD_HS_CLIENT_HELLO, ssl')
                else ext_loop E ssl' p (off + (4 + be16 (p (off + 2)) (p (off + 3))))
                       (ext_len - (4 + be16 (p (off + 2)) (p (off + 3)))) seen'))
      else Inr (ssl, seen))"
  by pat_completeness auto
termination
  by (relation "measure (\<lambda>(E, ssl, p, off, ext_len, seen). ext_len)") auto

subsection \<open>Renegotiation policy\<close>

text \<open>Lines 843--869: the value of \<^verbatim>\<open>handshake_failure\<close>.\<close>
definition renegotiation_checks :: "ssl_context \<Rightarrow> bool \<Rightarrow> bool" where
  "renegotiation_checks ssl renegotiation_info_seen =
     (if secure_renegotiation ssl = SSL_LEGACY_RENEGOTIATION \<and>
         allow_legacy_renegotiation ssl = SSL_LEGACY_BREAK_HANDSHAKE
      then True
      else if renegotiation ssl = SSL_RENEGOTIATION \<and>
              secure_renegotiation ssl = SSL_SECURE_RENEGOTIATION \<and>
              \<not> renegotiation_info_seen
      then True
      else if renegotiation ssl = SSL_RENEGOTIATION \<and>
              secure_renegotiation ssl = SSL_LEGACY_RENEGOTIATION \<and>
              allow_legacy_renegotiation ssl = SSL_LEGACY_NO_RENEGOTIATION
      then True
      else if renegotiation ssl = SSL_RENEGOTIATION \<and>
              secure_renegotiation ssl = SSL_LEGACY_RENEGOTIATION \<and>
              renegotiation_info_seen
      then True
      else False)"

text \<open>Lines 843--877.\<close>
definition client_hello_policy ::
  "collaborators \<Rightarrow> ssl_context \<Rightarrow> bool \<Rightarrow> (status \<times> ssl_context) + ssl_context" where
  "client_hello_policy E ssl renegotiation_info_seen =
     (if renegotiation_checks ssl renegotiation_info_seen
      then Inl (fatal_handshake_failure_return E ssl POLARSSL_ERR_SSL_BAD_HS_CLIENT_HELLO)
      else Inr ssl)"

subsection \<open>\<^verbatim>\<open>ssl_parse_client_hello\<close>\<close>

text \<open>Lines 552--931, the modern shape from its record header on.\<close>
definition client_hello_v3 :: "collaborators \<Rightarrow> ssl_context \<Rightarrow> status \<times> ssl_context" where
  "client_hello_v3 E ssl =
     (case client_hello_record E ssl of
        Inl r \<Rightarrow> r
      | Inr ssl1 \<Rightarrow>
     (case client_hello_header E ssl1 of
        Inl r \<Rightarrow> r
      | Inr ssl2 \<Rightarrow>
     (case client_hello_lengths ssl2 (in_msg ssl2) (client_hello_n ssl1) of
        Inl r \<Rightarrow> r
      | Inr (ssl3, sess_len, ciph_len, comp_len, ext_len) \<Rightarrow>
     (case check_scsv E
             (select_compression (config E) ssl3
                (ptr_add (in_msg ssl2) (42 + sess_len + ciph_len)) comp_len)
             (scsv_loop (ptr_add (in_msg ssl2) (41 + sess_len)) 0 ciph_len) of
        Inl r \<Rightarrow> r
      | Inr ssl5 \<Rightarrow>
     (case ext_loop E ssl5 (ptr_add (in_msg ssl2) (44 + sess_len + ciph_len + comp_len)) 0
             ext_len False of
        Inl r \<Rightarrow> r
      | Inr (ssl6, renegotiation_info_seen) \<Rightarrow>
     (case client_hello_policy E ssl6 renegotiation_info_seen of
        Inl r \<Rightarrow> r
      | Inr ssl7 \<Rightarrow>
          client_hello_select E ssl7 (ptr_add (in_msg ssl2) (41 + sess_len)) ciph_len))))))"

definition ssl_parse_client_hello ::
  "collaborators \<Rightarrow> ssl_context \<Rightarrow> status \<times> ssl_context" where
  "ssl_parse_client_hello E ssl =
     (case (if renegotiation ssl = SSL_INITIAL_HANDSHAKE then ssl_fetch_input E ssl 5
            else (None, ssl)) of
        (Some ret, ssl1) \<Rightarrow> (Some ret, ssl1)
      | (None, ssl1) \<Rightarrow>
          if POLARSSL_SSL_SRV_SUPPORT_SSLV2_CLIENT_HELLO (config E) \<and>
             in_hdr ssl1 0 AND 0x80 \<noteq> 0
          then ssl_parse_client_hello_v2 E ssl1
          else client_hello_v3 E ssl1)"


subsection \<open>ServerHello\<close>

text \<open>
  Modelled from the spec: \<^verbatim>\<open>ssl_write_record\<close> and \<^verbatim>\<open>ssl_read_record\<close> belong to
  the record layer. Writing hands the \<open>out_msglen\<close> bytes of \<open>out_msg\<close> over and
  returns a status; reading fills the input array and the fields describing the message.
\<close>
definition ssl_write_record :: "collaborators \<Rightarrow> ssl_context \<Rightarrow> status \<times> ssl_context" where
  "ssl_write_record E ssl =
     (write_record E ssl,
      ssl\<lparr>records_written := records_written ssl @ [bytes_at (out_msg ssl) (out_msglen ssl)]\<rparr>)"


text \<open>
  Lines 1031--1058: the bytes written when \<^verbatim>\<open>secure_renegotiation\<close> is
  \<^verbatim>\<open>SSL_SECURE_RENEGOTIATION\<close>.
\<close>
definition server_hello_ext :: "ssl_context \<Rightarrow> byte list" where
  "server_hello_ext ssl =
     (if secure_renegotiation ssl = SSL_SECURE_RENEGOTIATION then
        (let ext_len = 0 + (5 + verify_data_len ssl * 2) in
         [of_nat (drop_bit 8 ext_len AND 0xFF), of_nat (ext_len AND 0xFF),
          of_nat (drop_bit 8 TLS_EXT_RENEGOTIATION_INFO AND 0xFF),
          of_nat (TLS_EXT_RENEGOTIATION_INFO AND 0xFF),
          0x00,
          of_nat ((verify_data_len ssl * 2 + 1) AND 0xFF),
          of_nat (verify_data_len ssl * 2 AND 0xFF)] @
         bytes_at (peer_verify_data ssl) (verify_data_len ssl) @
         bytes_at (own_verify_data ssl) (verify_data_len ssl))
      else [])"

text \<open>Lines 953--963: version and time, the bytes at \<open>buf + 4 .. buf + 9\<close>.\<close>
definition server_hello_head :: "collaborators \<Rightarrow> ssl_context \<Rightarrow> byte list" where
  "server_hello_head E ssl =
     [word_of_int (major_ver ssl), word_of_int (minor_ver ssl),
      of_nat (drop_bit 24 (time_now E)), of_nat (drop_bit 16 (time_now E)),
      of_nat (drop_bit 8 (time_now E)), of_nat (time_now E)]"

text \<open>
  Lines 1014--1068, once the session id is settled: session id, ciphersuite, compression,
  the extension, and the hand-over to the record layer.
\<close>
definition server_hello_finish :: "collaborators \<Rightarrow> ssl_context \<Rightarrow> status \<times> ssl_context" where
  "server_hello_finish E ssl =
     (let sess = session_negotiate ssl;
          tail = bytes_at (sess_id sess) (sess_length sess) @
                 [word_of_int (drop_bit 8 (ciphersuite sess)), word_of_int (ciphersuite sess),
                  compression sess] @
                 server_hello_ext ssl
      in ssl_write_record E
           (ssl\<lparr>out_msg := (store (out_msg ssl) 39 tail)(0 := SSL_HS_SERVER_HELLO),
                 out_msglen := 39 + length tail,
                 out_msgtype := SSL_MSG_HANDSHAKE\<rparr>))"

text \<open>
  Lines 950--1012: up to the session id. \<open>Inl\<close> is a return on a failing collaborator,
  \<open>Inr\<close> the state with which the function goes on to line 1014.
\<close>
definition server_hello_prepare ::
  "collaborators \<Rightarrow> ssl_context \<Rightarrow> (status \<times> ssl_context) + ssl_context" where
  "server_hello_prepare E ssl =
     (case f_rng ssl (p_rng ssl) 28 of (ret, r, g) \<Rightarrow>
        let ssl1 = ssl\<lparr>out_msg := store (store (out_msg ssl) 4 (server_hello_head E ssl)) 10
                                     (bytes_at r 28),
                       p_rng := g\<rparr>
        in
        if ret \<noteq> None then Inl (ret, ssl1)
        else
          let ssl2 = ssl1\<lparr>handshake := (handshake ssl1)
                             \<lparr>randbytes := memcpy (randbytes (handshake ssl1)) 32
                                             (ptr_add (out_msg ssl1) 6) 32\<rparr>,
                           session_negotiate := (session_negotiate ssl1)\<lparr>sess_length := 32\<rparr>\<rparr>;
              ssl3 = ssl2\<lparr>out_msg := store (out_msg ssl2) 38 [of_nat 32]\<rparr>;
              cache = (if renegotiation ssl3 \<noteq> SSL_INITIAL_HANDSHAKE then None
                       else (case f_get_cache ssl3 of
                               None \<Rightarrow> None
                             | Some f \<Rightarrow> Some (f (session_negotiate ssl3))))
          in
          (case cache of
             Some (None, sess) \<Rightarrow>
               let ssl4 = ssl3\<lparr>session_negotiate := sess,
                                handshake := (handshake ssl3)\<lparr>resume := 1\<rparr>,
                                state := SSL_SERVER_CHANGE_CIPHER_SPEC\<rparr>
               in (case derive_keys E ssl4 of
                     Some ret' \<Rightarrow> Inl (Some ret', ssl4)
                   | None \<Rightarrow> Inr ssl4)
           | _ \<Rightarrow>
               let ssl4 = ssl3\<lparr>session_negotiate :=
                                  (case cache of Some (_, sess) \<Rightarrow> sess
                                   | None \<Rightarrow> session_negotiate ssl3),
                                handshake := (handshake ssl3)\<lparr>resume := 0\<rparr>,
                                state := state ssl3 + 1\<rparr>
               in (case f_rng ssl4 (p_rng ssl4) 32 of (ret', r', g') \<Rightarrow>
                     let ssl5 = ssl4\<lparr>session_negotiate := (session_negotiate ssl4)
                                        \<lparr>sess_id := memcpy (sess_id (session_negotiate ssl4)) 0
                                                      r' 32\<rparr>,
                                      p_rng := g'\<rparr>
                     in if ret' \<noteq> None then Inl (ret', ssl5)
                        else Inr ssl5)))"

definition ssl_write_server_hello :: "collaborators \<Rightarrow> ssl_context \<Rightarrow> status \<times> ssl_context" where
  "ssl_write_server_hello E ssl =
     (case server_hello_prepare E ssl of
        Inl r \<Rightarrow> r
      | Inr ssl5 \<Rightarrow> server_hello_finish E ssl5)"

subsection \<open>ClientKeyExchange\<close>



text \<open>
  \<^verbatim>\<open>ssl->rsa_decrypt\<close> is given the key, the \<open>n\<close> bytes at \<open>in_msg + i\<close> and the
  output length and buffer as they stand, and hands back its status and what it has
  made of the two.
\<close>
definition ssl_parse_encrypted_pms_secret :: "ssl_context \<Rightarrow> status \<times> ssl_context" where
  "ssl_parse_encrypted_pms_secret ssl =
     (case rsa_key ssl of
        None \<Rightarrow> (Some POLARSSL_ERR_SSL_PRIVATE_KEY_REQUIRED, ssl)
      | Some key \<Rightarrow>
          let n = rsa_key_len ssl key;
              ssl1 = ssl\<lparr>handshake := (handshake ssl)\<lparr>pmslen := 48\<rparr>\<rparr>;
              i = (if minor_ver ssl \<noteq> SSL_MINOR_VERSION_0 then 4 + 2 else 4)
          in
          if minor_ver ssl \<noteq> SSL_MINOR_VERSION_0 \<and>
             (unat (in_msg ssl 4) \<noteq> drop_bit 8 n AND 0xFF \<or>
              unat (in_msg ssl 5) \<noteq> n AND 0xFF)
          then (Some POLARSSL_ERR_SSL_BAD_HS_CLIENT_KEY_EXCHANGE, ssl1)
          else if in_hslen ssl \<noteq> i + n
          then (Some POLARSSL_ERR_SSL_BAD_HS_CLIENT_KEY_EXCHANGE, ssl1)
          else
            (case rsa_decrypt ssl key (bytes_at (ptr_add (in_msg ssl) i) n)
                    (pmslen (handshake ssl1)) (premaster (handshake ssl1)) of
               (ret, olen, pm) \<Rightarrow>
                 let ssl2 = ssl1\<lparr>handshake := (handshake ssl1)
                                    \<lparr>pmslen := olen, premaster := pm\<rparr>\<rparr>
                 in
                 if ret \<noteq> None \<or> olen \<noteq> 48 \<or>
                    uint (pm 0) \<noteq> hs_max_major_ver (handshake ssl2) \<or>
                    uint (pm 1) \<noteq> hs_max_minor_ver (handshake ssl2)
                 then
                   (case f_rng ssl2 (p_rng ssl2) 48 of (ret', r, g) \<Rightarrow>
                      (ret', ssl2\<lparr>handshake := (handshake ssl2)
                                     \<lparr>pmslen := 48, premaster := memcpy pm 0 r 48\<rparr>,
                                   p_rng := g\<rparr>))
                 else (ret, ssl2)))"


text \<open>\<^verbatim>\<open>(unsigned char)( len >> 8 )\<close> and \<^verbatim>\<open>(unsigned char)( len )\<close>.\<close>
definition len16 :: "nat \<Rightarrow> byte list" where
  "len16 len = [of_nat (drop_bit 8 len), of_nat len]"






subsection \<open>The signature\_algorithms list in the words of the spec\<close>

text \<open>The (hash, signature) pairs a list of bytes spells.\<close>
fun pairs_of :: "byte list \<Rightarrow> (byte \<times> byte) list" where
  "pairs_of (h # s # rest) = (h, s) # pairs_of rest"
| "pairs_of _ = []"

text \<open>The hashes compiled in.\<close>
definition hash_compiled_in :: "build_config \<Rightarrow> byte \<Rightarrow> bool" where
  "hash_compiled_in cfg h \<longleftrightarrow>
     (POLARSSL_SHA512_C cfg \<and> (h = SSL_HASH_SHA512 \<or> h = SSL_HASH_SHA384)) \<or>
     (POLARSSL_SHA256_C cfg \<and> (h = SSL_HASH_SHA256 \<or> h = SSL_HASH_SHA224)) \<or>
     h = SSL_HASH_SHA1 \<or> h = SSL_HASH_MD5"

text \<open>
  The choice as the spec words it: the first hash of the order SHA512, SHA384, SHA256,
  SHA224, SHA1, MD5 that is compiled in and stands in some pair with the signature RSA.
\<close>
definition first_preferred_rsa_hash :: "build_config \<Rightarrow> (byte \<times> byte) list \<Rightarrow> byte option" where
  "first_preferred_rsa_hash cfg pairs =
     find (\<lambda>h. hash_compiled_in cfg h \<and> (h, SSL_SIG_RSA) \<in> set pairs)
       [SSL_HASH_SHA512, SSL_HASH_SHA384, SSL_HASH_SHA256, SSL_HASH_SHA224,
        SSL_HASH_SHA1, SSL_HASH_MD5]"

text \<open>
  The choice in the order of the client's list: the hash of the first pair whose
  signature is RSA and whose hash is compiled in.
\<close>
definition first_listed_rsa_hash :: "build_config \<Rightarrow> (byte \<times> byte) list \<Rightarrow> byte option" where
  "first_listed_rsa_hash cfg pairs =
     map_option fst (find (\<lambda>(h, s). s = SSL_SIG_RSA \<and> hash_compiled_in cfg h) pairs)"

subsection \<open>The layout of a ClientHello and the choice of a ciphersuite, in words\<close>

text \<open>
  The four length fields of the layout drawn at lines 600--611, each at the offset the
  fields before it give: the session id length at 38, the ciphersuite list length after
  the session id, the compression list length after the ciphersuite list, the extensions
  length after the compression list.
\<close>
definition hello_sess_len :: "buffer \<Rightarrow> nat" where
  "hello_sess_len buf = unat (buf 38)"

definition hello_ciph_len :: "buffer \<Rightarrow> nat" where
  "hello_ciph_len buf = be16 (buf (39 + hello_sess_len buf)) (buf (40 + hello_sess_len buf))"

definition hello_comp_len :: "buffer \<Rightarrow> nat" where
  "hello_comp_len buf = unat (buf (41 + hello_sess_len buf + hello_ciph_len buf))"

definition hello_ext_len :: "buffer \<Rightarrow> nat" where
  "hello_ext_len buf =
     be16 (buf (42 + hello_sess_len buf + hello_ciph_len buf + hello_comp_len buf))
          (buf (43 + hello_sess_len buf + hello_ciph_len buf + hello_comp_len buf))"

text \<open>
  The client advertises \<open>c\<close>: one of the two-byte entries of its list, which is
  \<open>ciph_len\<close> bytes at \<open>p\<close>, holds the two low bytes of \<open>c\<close>.
\<close>
definition client_offers :: "buffer \<Rightarrow> nat \<Rightarrow> int \<Rightarrow> bool" where
  "client_offers p ciph_len c \<longleftrightarrow>
     list_ex (\<lambda>i. uint (p (2 * i)) = (drop_bit 8 c) AND 0xFF \<and>
                   uint (p (2 * i + 1)) = c AND 0xFF)
       [0..<(ciph_len + 1) div 2]"

text \<open>
  A ciphersuite the server may select: the client advertises it, its range of minor
  versions holds the negotiated one, and it is not EC-based while no curve is selected.
\<close>
definition suite_acceptable ::
  "collaborators \<Rightarrow> ssl_context \<Rightarrow> buffer \<Rightarrow> nat \<Rightarrow> int \<Rightarrow> bool" where
  "suite_acceptable E ssl p ciph_len c \<longleftrightarrow>
     client_offers p ciph_len c \<and>
     (case ciphersuite_from_id E c of
        None \<Rightarrow> False
      | Some info \<Rightarrow>
          min_minor_ver_cs info \<le> minor_ver ssl \<and> minor_ver ssl \<le> max_minor_ver_cs info \<and>
          \<not> (flags info AND POLARSSL_CIPHERSUITE_EC \<noteq> 0 \<and> ec_curve (handshake ssl) = 0))"

text \<open>The server's ordered list for the negotiated minor version, up to its terminating 0.\<close>
definition server_preference :: "ssl_context \<Rightarrow> int list" where
  "server_preference ssl = takeWhile (\<lambda>c. c \<noteq> 0) (ciphersuite_list ssl (minor_ver ssl))"

subsection \<open>A context to run the functions on\<close>

text \<open>
  Every macro defined, with a premaster array of 512 bytes; a context as \<^verbatim>\<open>ssl_init\<close> and \<^verbatim>\<open>ssl_handshake_init\<close>
  leave it, every byte zero, with TLS 1.0 to 1.2 allowed, a random generator that
  returns the bytes \<open>0x5A\<close>, and collaborators that succeed: the record layer leaves
  the input array as it finds it, the ciphersuite table knows
  \<^verbatim>\<open>TLS_RSA_WITH_AES_128_CBC_SHA\<close> (0x2F), \<^verbatim>\<open>TLS_RSA_WITH_RC4_128_SHA\<close> (0x05),
  \<^verbatim>\<open>TLS_PSK_WITH_AES_128_CBC_SHA\<close> (0x8C) and
  \<^verbatim>\<open>TLS_ECDHE_RSA_WITH_AES_128_CBC_SHA\<close> (0xC013).
\<close>
definition build_all :: build_config where
  "build_all =
     \<lparr>POLARSSL_SHA256_C = True, POLARSSL_SHA512_C = True, POLARSSL_ECP_C = True,
      POLARSSL_ECP_DP_SECP192R1_ENABLED = True, POLARSSL_ECP_DP_SECP224R1_ENABLED = True,
      POLARSSL_ECP_DP_SECP256R1_ENABLED = True, POLARSSL_ECP_DP_SECP384R1_ENABLED = True,
      POLARSSL_ECP_DP_SECP521R1_ENABLED = True, POLARSSL_ZLIB_SUPPORT = True,
      POLARSSL_SSL_SRV_SUPPORT_SSLV2_CLIENT_HELLO = True,
      POLARSSL_KEY_EXCHANGE_RSA_ENABLED = True, POLARSSL_KEY_EXCHANGE_DHE_RSA_ENABLED = True,
      POLARSSL_KEY_EXCHANGE_ECDHE_RSA_ENABLED = True, POLARSSL_KEY_EXCHANGE_PSK_ENABLED = True,
      POLARSSL_KEY_EXCHANGE_DHE_PSK_ENABLED = True, POLARSSL_MPI_MAX_SIZE = 512\<rparr>"

definition zeroes :: buffer where
  "zeroes = (\<lambda>i. 0)"

definition handshake_fresh :: ssl_handshake_params where
  "handshake_fresh =
     \<lparr>sig_alg = 0, ec_curve = 0, ec_point_format = 0, hs_max_major_ver = 0,
      hs_max_minor_ver = 0, randbytes = zeroes, resume = 0, premaster = zeroes, pmslen = 0,
      dhm_ctx_len = 0, ecdh_ctx_grp_P_size = 0\<rparr>"

definition session_fresh :: ssl_session where
  "session_fresh = \<lparr>sess_length = 0, sess_id = zeroes, ciphersuite = 0, compression = 0\<rparr>"

definition ssl_fresh :: ssl_context where
  "ssl_fresh =
     \<lparr>state = 1, renegotiation = SSL_INITIAL_HANDSHAKE,
      secure_renegotiation = SSL_LEGACY_RENEGOTIATION,
      allow_legacy_renegotiation = SSL_LEGACY_NO_RENEGOTIATION,
      major_ver = 0, minor_ver = 0, max_minor_ver = 3, min_minor_ver = 1,
      verify_data_len = 0, own_verify_data = zeroes, peer_verify_data = zeroes,
      in_hdr = zeroes, in_left = 0, in_msglen = 0, in_msgtype = 0, in_hslen = 0,
      out_msg = zeroes, out_msglen = 0, out_msgtype = 0,
      ciphersuite_list = (\<lambda>v. [0xC013, 0x2F, 0x05, 0x8C, 0]),
      f_sni = None, f_get_cache = None,
      p_rng = 0, f_rng = (\<lambda>g len. (None, (\<lambda>i. 0x5A), g + len)),
      rsa_key = None, rsa_key_len = (\<lambda>k. 0),
      rsa_decrypt = (\<lambda>k input olen output. (Some (OTHER_STATUS (-1)), olen, output)),
      psk = None, psk_len = 0, psk_identity = None, psk_identity_len = 0,
      handshake = handshake_fresh, session_negotiate = session_fresh,
      ciphersuite_info = None,
      alerts_sent = [], checksum_input = [], records_written = []\<rparr>"

definition suite_table :: "int \<Rightarrow> ssl_ciphersuite_t option" where
  "suite_table c =
     (if c = 0x2F then
        Some \<lparr>cs_id = 0x2F, key_exchange = POLARSSL_KEY_EXCHANGE_RSA,
              min_minor_ver_cs = 0, max_minor_ver_cs = 3, flags = 0\<rparr>
      else if c = 0x05 then
        Some \<lparr>cs_id = 0x05, key_exchange = POLARSSL_KEY_EXCHANGE_RSA,
              min_minor_ver_cs = 0, max_minor_ver_cs = 3, flags = 0\<rparr>
      else if c = 0x8C then
        Some \<lparr>cs_id = 0x8C, key_exchange = POLARSSL_KEY_EXCHANGE_PSK,
              min_minor_ver_cs = 0, max_minor_ver_cs = 3, flags = 0\<rparr>
      else if c = 0xC013 then
        Some \<lparr>cs_id = 0xC013, key_exchange = POLARSSL_KEY_EXCHANGE_ECDHE_RSA,
              min_minor_ver_cs = 1, max_minor_ver_cs = 3, flags = POLARSSL_CIPHERSUITE_EC\<rparr>
      else None)"

definition collaborators_ok :: collaborators where
  "collaborators_ok =
     \<lparr>config = build_all,
      fetch_input = (\<lambda>ssl nb. (None, in_hdr ssl, nb)),
      send_alert = (\<lambda>ssl level msg. None),
      read_record = (\<lambda>ssl. (None, in_hdr ssl, in_msglen ssl, in_hslen ssl, in_msgtype ssl)),
      write_record = (\<lambda>ssl. None),
      derive_keys = (\<lambda>ssl. None),
      ciphersuite_from_id = suite_table,
      dhm_read_public = (\<lambda>pub. None),
      dhm_calc_secret = (\<lambda>ssl. (None, zeroes, dhm_ctx_len (handshake ssl))),
      ecdh_read_public = (\<lambda>pub. None),
      ecdh_calc_secret = (\<lambda>ssl. (None, zeroes, ecdh_ctx_grp_P_size (handshake ssl))),
      time_now = 0\<rparr>"


text \<open>
  A renegotiation on a connection whose first handshake was secure: TLS 1.2, twelve
  bytes of verify data on each side.
\<close>
definition ssl_reneg :: ssl_context where
  "ssl_reneg =
     ssl_fresh\<lparr>renegotiation := SSL_RENEGOTIATION,
                secure_renegotiation := SSL_SECURE_RENEGOTIATION,
                major_ver := 3, minor_ver := 3,
                verify_data_len := 12,
                own_verify_data := buf_of (replicate 12 0xAA),
                peer_verify_data := buf_of (replicate 12 0xBB)\<rparr>"

text \<open>
  A TLS 1.2 server with a 1024-bit RSA key whose decryption fails, holding a
  ClientKeyExchange of the right shape (length prefix 128, 128 bytes), and the same
  server holding one whose encrypted premaster is a byte short (length prefix 127).
\<close>
definition ssl_rsa :: ssl_context where
  "ssl_rsa =
     ssl_fresh\<lparr>minor_ver := 3, rsa_key := Some 0, rsa_key_len := (\<lambda>k. 128),
                in_hdr := buf_of ([22, 3, 3, 0, 134] @ [16, 0, 0, 130] @ [0, 128] @
                                  replicate 128 0x42),
                in_msglen := 134, in_msgtype := 22, in_hslen := 134,
                ciphersuite_info := suite_table 0x2F\<rparr>"

definition ssl_rsa_short :: ssl_context where
  "ssl_rsa_short =
     ssl_fresh\<lparr>minor_ver := 3, rsa_key := Some 0, rsa_key_len := (\<lambda>k. 128),
                in_hdr := buf_of ([22, 3, 3, 0, 133] @ [16, 0, 0, 129] @ [0, 127] @
                                  replicate 127 0x42),
                in_msglen := 133, in_msgtype := 22, in_hslen := 133,
                ciphersuite_info := suite_table 0x2F\<rparr>"


text \<open>
  Three first flights. The ClientHello of the spec's scenario S1: TLS 1.2, no session id,
  the one ciphersuite 0x002F, the null compression, no extensions, a record of 45 bytes.
  The same with a renegotiation\_info extension, a record of 52 bytes. And a record of 45
  bytes whose session id length byte says 32.
\<close>
definition ssl_s1 :: ssl_context where
  "ssl_s1 =
     ssl_fresh\<lparr>in_hdr := buf_of ([22, 3, 1, 0, 45] @ [1, 0, 0, 41, 3, 3] @ replicate 32 0x11 @
                                  [0] @ [0, 2, 0x00, 0x2F] @ [1, 0])\<rparr>"

definition ssl_s1_ext :: ssl_context where
  "ssl_s1_ext =
     ssl_fresh\<lparr>in_hdr := buf_of ([22, 3, 1, 0, 52] @ [1, 0, 0, 48, 3, 3] @ replicate 32 0x11 @
                                  [0] @ [0, 2, 0x00, 0x2F] @ [1, 0] @
                                  [0, 5, 0xFF, 0x01, 0, 1, 0])\<rparr>"

definition ssl_overread :: ssl_context where
  "ssl_overread =
     ssl_fresh\<lparr>in_hdr := buf_of ([22, 3, 1, 0, 45] @ [1, 0, 0, 41, 3, 3] @ replicate 32 0x11 @
                                  [32] @ [1, 2, 3, 4, 5, 6])\<rparr>"


text \<open>Collaborators as above, but a record layer that fails to send any alert.\<close>
definition collaborators_alert_fails :: collaborators where
  "collaborators_alert_fails =
     collaborators_ok\<lparr>send_alert := (\<lambda>ssl level msg. Some (OTHER_STATUS (- 78)))\<rparr>"

text \<open>
  The spec's scenario S5: on the secure connection of \<open>ssl_reneg\<close> the record layer
  has read a second ClientHello, that of S1, which carries no renegotiation\_info.
\<close>
definition ssl_reneg_hello :: ssl_context where
  "ssl_reneg_hello =
     ssl_reneg\<lparr>in_hdr := buf_of ([22, 3, 3, 0, 45] @ [1, 0, 0, 41, 3, 3] @ replicate 32 0x11 @
                                  [0] @ [0, 2, 0x00, 0x2F] @ [1, 0]),
                in_msglen := 45\<rparr>"

section \<open>Properties\<close>

declare sig_alg_loop.simps [simp del]
declare point_format_loop.simps [simp del]
declare elliptic_curves_loop.simps [simp del]
declare servername_loop.simps [simp del]
declare scsv_loop.simps [simp del]
declare scsv_loop_v2.simps [simp del]
declare deflate_loop.simps [simp del]
declare ext_loop.simps [simp del]
declare ciphersuite_inner.simps [simp del]
declare ciphersuite_inner_v2.simps [simp del]

subsection \<open>Bytes\<close>

lemma be16_eq: "be16 hi lo = 256 * unat hi + unat lo"
proof -
  have "push_bit 8 (unat hi) AND unat lo = 0"
    by (auto simp: bit_eq_iff bit_simps dest: bit_imp_le_length)
  then have "push_bit 8 (unat hi) OR unat lo = push_bit 8 (unat hi) + unat lo"
    by (simp add: disjunctive_add_eq_or)
  then show ?thesis
    by (simp add: be16_def push_bit_eq_mult)
qed

lemma bytes_at_Suc: "bytes_at p (Suc n) = p 0 # bytes_at (ptr_add p 1) n"
  by (simp add: bytes_at_def ptr_add_def map_upt_Suc del: upt_Suc)

lemma length_bytes_at [simp]: "length (bytes_at p n) = n"
  by (simp add: bytes_at_def)

lemma ptr_add_add: "ptr_add (ptr_add p a) b = ptr_add p (a + b)"
  by (simp add: ptr_add_def add.assoc)

lemma ptr_add_apply: "ptr_add p a i = p (a + i)"
  by (simp add: ptr_add_def)

lemma bytes_at_two:
  "bytes_at (ptr_add p off) (Suc (Suc n)) =
     p off # p (off + 1) # bytes_at (ptr_add p (off + 2)) n"
  by (simp add: bytes_at_Suc ptr_add_add ptr_add_apply)

subsection \<open>signature\_algorithms\<close>

lemma sig_alg_loop_listed:
  "even sz \<Longrightarrow>
   sig_alg_loop cfg buf off sz =
     first_listed_rsa_hash cfg (pairs_of (bytes_at (ptr_add buf off) sz))"
proof (induction cfg buf off sz rule: sig_alg_loop.induct)
  case (1 cfg buf off sz)
  show ?case
  proof (cases "sz = 0")
    case True
    then show ?thesis
      by (simp add: sig_alg_loop.simps first_listed_rsa_hash_def bytes_at_def)
  next
    case False
    with "1.prems" obtain m where m: "sz = Suc (Suc m)" and em: "even m"
      by (cases sz; cases "sz - 1") auto
    have rest: "even (sz - 2)" using m em by simp
    note ih1 = "1.IH"(1) [OF _ _ rest] and ih2 = "1.IH"(2) [OF _ _ _ _ _ _ _ _ rest]
    show ?thesis
      using ih1 ih2 m
      by (subst sig_alg_loop.simps)
         (auto simp: first_listed_rsa_hash_def bytes_at_two hash_compiled_in_def
            SSL_HASH_MD5_def SSL_HASH_SHA1_def SSL_HASH_SHA224_def SSL_HASH_SHA256_def
            SSL_HASH_SHA384_def SSL_HASH_SHA512_def SSL_SIG_RSA_def)
  qed
qed

text \<open>
  Claim C2, as the code has it. For a well-formed signature\_algorithms body (the
  two-byte prefix is even and is the length of what follows it) the parser returns
  success, and \<open>sig_alg\<close> becomes the hash of the first pair, in the order the client
  listed them, whose signature byte is RSA and whose hash is compiled in; with no such
  pair the state is left as it was. The order SHA512, SHA384, SHA256, SHA224, SHA1, MD5
  is only the order in which one pair's hash byte is compared.
\<close>
theorem sig_alg_first_listed:
  assumes "be16 (buf 0) (buf 1) + 2 = len" and "even (be16 (buf 0) (buf 1))"
  shows "ssl_parse_signature_algorithms_ext cfg ssl buf len =
           (None,
            case first_listed_rsa_hash cfg (pairs_of (bytes_at (ptr_add buf 2) (len - 2))) of
              Some h \<Rightarrow> ssl\<lparr>handshake := (handshake ssl)\<lparr>sig_alg := uint h\<rparr>\<rparr>
            | None \<Rightarrow> ssl)"
proof -
  have len: "len - 2 = be16 (buf 0) (buf 1)"
    using assms(1) by simp
  have "sig_alg_loop cfg buf 2 (be16 (buf 0) (buf 1)) =
          first_listed_rsa_hash cfg (pairs_of (bytes_at (ptr_add buf 2) (len - 2)))"
    using sig_alg_loop_listed [OF assms(2)] len by simp
  then show ?thesis
    using assms by (simp add: ssl_parse_signature_algorithms_ext_def split: option.split)
qed

theorem sig_alg_first_listed_witness:
  "be16 (buf_of [0, 4, 2, 1, 6, 1] 0) (buf_of [0, 4, 2, 1, 6, 1] 1) + 2 = 6 \<and>
   even (be16 (buf_of [0, 4, 2, 1, 6, 1] 0) (buf_of [0, 4, 2, 1, 6, 1] 1)) \<and>
   ssl_parse_signature_algorithms_ext build_all ssl_fresh (buf_of [0, 4, 2, 1, 6, 1]) 6 =
     (None, ssl_fresh\<lparr>handshake := (handshake ssl_fresh)\<lparr>sig_alg := uint SSL_HASH_SHA1\<rparr>\<rparr>)"
proof -
  have h1: "be16 (buf_of [0, 4, 2, 1, 6, 1] 0) (buf_of [0, 4, 2, 1, 6, 1] 1) + 2 = 6"
    by code_simp
  have h2: "even (be16 (buf_of [0, 4, 2, 1, 6, 1] 0) (buf_of [0, 4, 2, 1, 6, 1] 1))"
    by code_simp
  have c: "first_listed_rsa_hash build_all
             (pairs_of (bytes_at (ptr_add (buf_of [0, 4, 2, 1, 6, 1]) 2) (6 - 2))) =
           Some SSL_HASH_SHA1"
    by code_simp
  show ?thesis
    using sig_alg_first_listed [OF h1 h2, of build_all ssl_fresh] h1 h2 c by simp
qed

text \<open>
  The claim as the spec words it fails: for the list (SHA1, RSA), (SHA512, RSA) the first
  hash of the preference order carried by an RSA pair is SHA512, and the parser stores
  SHA1.
\<close>
theorem sig_alg_preference_counterexample:
  "be16 (buf_of [0, 4, 2, 1, 6, 1] 0) (buf_of [0, 4, 2, 1, 6, 1] 1) + 2 = 6 \<and>
   first_preferred_rsa_hash build_all
     (pairs_of (bytes_at (ptr_add (buf_of [0, 4, 2, 1, 6, 1]) 2) 4)) = Some SSL_HASH_SHA512 \<and>
   sig_alg (handshake (snd (ssl_parse_signature_algorithms_ext build_all ssl_fresh
                              (buf_of [0, 4, 2, 1, 6, 1]) 6))) = uint SSL_HASH_SHA1 \<and>
   uint SSL_HASH_SHA1 \<noteq> uint SSL_HASH_SHA512"
  by code_simp

subsection \<open>ec\_point\_formats\<close>

text \<open>
  Claim C8 at the body \<open>02 00 01\<close>, which lists uncompressed (0) and then compressed
  (1): the first listed format is uncompressed, and the parser, whose loop starts at
  \<^verbatim>\<open>buf + 2\<close>, skips it and records compressed.
\<close>
theorem point_formats_skips_first_format:
  "unat (buf_of [2, 0, 1] 0) + 1 = 3 \<and>
   buf_of [2, 0, 1] 1 = POLARSSL_ECP_PF_UNCOMPRESSED \<and>
   ssl_parse_supported_point_formats ssl_fresh (buf_of [2, 0, 1]) 3 =
     (None, ssl_fresh\<lparr>handshake := (handshake ssl_fresh)
                        \<lparr>ec_point_format := uint POLARSSL_ECP_PF_COMPRESSED\<rparr>\<rparr>)"
proof -
  have "point_format_loop (buf_of [2, 0, 1]) 2 2 = Some POLARSSL_ECP_PF_COMPRESSED"
    by code_simp
  moreover have "unat (buf_of [2, 0, 1] 0) = 2"
    by code_simp
  moreover have "buf_of [2, 0, 1] 1 = POLARSSL_ECP_PF_UNCOMPRESSED"
    by code_simp
  ultimately show ?thesis
    by (simp add: ssl_parse_supported_point_formats_def)
qed


subsection \<open>Renegotiation policy\<close>

lemma fatal_return_ok:
  "send_alert E ssl SSL_ALERT_LEVEL_FATAL SSL_ALERT_MSG_HANDSHAKE_FAILURE = None \<Longrightarrow>
   fatal_handshake_failure_return E ssl e =
     (Some e, ssl\<lparr>alerts_sent := alerts_sent ssl @
                     [(SSL_ALERT_LEVEL_FATAL, SSL_ALERT_MSG_HANDSHAKE_FAILURE)]\<rparr>)"
  by (simp add: fatal_handshake_failure_return_def ssl_send_fatal_handshake_failure_def
        ssl_send_alert_message_def)

lemma renegotiation_checks_iff:
  "renegotiation_checks ssl seen \<longleftrightarrow>
     secure_renegotiation ssl = SSL_LEGACY_RENEGOTIATION \<and>
       allow_legacy_renegotiation ssl = SSL_LEGACY_BREAK_HANDSHAKE \<or>
     renegotiation ssl = SSL_RENEGOTIATION \<and>
       secure_renegotiation ssl = SSL_SECURE_RENEGOTIATION \<and> \<not> seen \<or>
     renegotiation ssl = SSL_RENEGOTIATION \<and>
       secure_renegotiation ssl = SSL_LEGACY_RENEGOTIATION \<and>
       allow_legacy_renegotiation ssl = SSL_LEGACY_NO_RENEGOTIATION \<or>
     renegotiation ssl = SSL_RENEGOTIATION \<and>
       secure_renegotiation ssl = SSL_LEGACY_RENEGOTIATION \<and> seen"
  by (auto simp: renegotiation_checks_def)

lemma fatal_return_eq:
  "fatal_handshake_failure_return E ssl e =
     (case send_alert E ssl SSL_ALERT_LEVEL_FATAL SSL_ALERT_MSG_HANDSHAKE_FAILURE of
        None \<Rightarrow> Some e
      | Some ret \<Rightarrow> Some ret,
      ssl\<lparr>alerts_sent := alerts_sent ssl @
             [(SSL_ALERT_LEVEL_FATAL, SSL_ALERT_MSG_HANDSHAKE_FAILURE)]\<rparr>)"
  by (simp add: fatal_handshake_failure_return_def ssl_send_fatal_handshake_failure_def
        ssl_send_alert_message_def split: option.split)

lemma client_hello_policy_eq:
  "client_hello_policy E ssl seen =
     (if secure_renegotiation ssl = SSL_LEGACY_RENEGOTIATION \<and>
           allow_legacy_renegotiation ssl = SSL_LEGACY_BREAK_HANDSHAKE \<or>
         renegotiation ssl = SSL_RENEGOTIATION \<and>
           secure_renegotiation ssl = SSL_SECURE_RENEGOTIATION \<and> \<not> seen \<or>
         renegotiation ssl = SSL_RENEGOTIATION \<and>
           secure_renegotiation ssl = SSL_LEGACY_RENEGOTIATION \<and>
           allow_legacy_renegotiation ssl = SSL_LEGACY_NO_RENEGOTIATION \<or>
         renegotiation ssl = SSL_RENEGOTIATION \<and>
           secure_renegotiation ssl = SSL_LEGACY_RENEGOTIATION \<and> seen
      then Inl (case send_alert E ssl SSL_ALERT_LEVEL_FATAL SSL_ALERT_MSG_HANDSHAKE_FAILURE of
                  None \<Rightarrow> Some POLARSSL_ERR_SSL_BAD_HS_CLIENT_HELLO
                | Some ret \<Rightarrow> Some ret,
                ssl\<lparr>alerts_sent := alerts_sent ssl @
                       [(SSL_ALERT_LEVEL_FATAL, SSL_ALERT_MSG_HANDSHAKE_FAILURE)]\<rparr>)
      else Inr ssl)"
  unfolding client_hello_policy_def renegotiation_checks_iff
  by (simp add: fatal_return_eq)

lemma reneg_policy_fields:
  "alerts_sent ssl_reneg = []" "renegotiation ssl_reneg = SSL_RENEGOTIATION"
  "secure_renegotiation ssl_reneg = SSL_SECURE_RENEGOTIATION"
  "send_alert collaborators_ok = (\<lambda>ssl level msg. None)"
  "send_alert collaborators_alert_fails = (\<lambda>ssl level msg. Some (OTHER_STATUS (- 78)))"
  by (simp_all add: ssl_reneg_def ssl_fresh_def collaborators_ok_def
        collaborators_alert_fails_def)

text \<open>
  Claim C5, as the code has it. After the extension walk the function ends fatally in
  exactly the four cases of the policy table, and goes on to the ciphersuite selection
  with the state untouched in every other case. Ending fatally, it hands a fatal
  handshake\_failure alert to the record layer and returns
  \<^verbatim>\<open>POLARSSL_ERR_SSL_BAD_HS_CLIENT_HELLO\<close> when the record layer has sent the alert,
  and the status of the failed write when it has not (lines 873--876). The first
  equation is that of lines 843--877 on their own; the second is
  \<^verbatim>\<open>ssl_parse_client_hello\<close> on the modern shape, from its record header on, with
  those lines in their place after the walk.
\<close>
theorem client_hello_policy_cases:
  "client_hello_policy E ssl seen =
     (if secure_renegotiation ssl = SSL_LEGACY_RENEGOTIATION \<and>
           allow_legacy_renegotiation ssl = SSL_LEGACY_BREAK_HANDSHAKE \<or>
         renegotiation ssl = SSL_RENEGOTIATION \<and>
           secure_renegotiation ssl = SSL_SECURE_RENEGOTIATION \<and> \<not> seen \<or>
         renegotiation ssl = SSL_RENEGOTIATION \<and>
           secure_renegotiation ssl = SSL_LEGACY_RENEGOTIATION \<and>
           allow_legacy_renegotiation ssl = SSL_LEGACY_NO_RENEGOTIATION \<or>
         renegotiation ssl = SSL_RENEGOTIATION \<and>
           secure_renegotiation ssl = SSL_LEGACY_RENEGOTIATION \<and> seen
      then Inl (case send_alert E ssl SSL_ALERT_LEVEL_FATAL SSL_ALERT_MSG_HANDSHAKE_FAILURE of
                  None \<Rightarrow> Some POLARSSL_ERR_SSL_BAD_HS_CLIENT_HELLO
                | Some ret \<Rightarrow> Some ret,
                ssl\<lparr>alerts_sent := alerts_sent ssl @
                       [(SSL_ALERT_LEVEL_FATAL, SSL_ALERT_MSG_HANDSHAKE_FAILURE)]\<rparr>)
      else Inr ssl) \<and>
   client_hello_v3 E ssl0 =
     (case client_hello_record E ssl0 of
        Inl r \<Rightarrow> r
      | Inr ssl1 \<Rightarrow>
     (case client_hello_header E ssl1 of
        Inl r \<Rightarrow> r
      | Inr ssl2 \<Rightarrow>
     (case client_hello_lengths ssl2 (in_msg ssl2) (client_hello_n ssl1) of
        Inl r \<Rightarrow> r
      | Inr (ssl3, sess_len, ciph_len, comp_len, ext_len) \<Rightarrow>
     (case check_scsv E
             (select_compression (config E) ssl3
                (ptr_add (in_msg ssl2) (42 + sess_len + ciph_len)) comp_len)
             (scsv_loop (ptr_add (in_msg ssl2) (41 + sess_len)) 0 ciph_len) of
        Inl r \<Rightarrow> r
      | Inr ssl5 \<Rightarrow>
     (case ext_loop E ssl5 (ptr_add (in_msg ssl2) (44 + sess_len + ciph_len + comp_len)) 0
             ext_len False of
        Inl r \<Rightarrow> r
      | Inr (ssl6, renegotiation_info_seen) \<Rightarrow>
          if secure_renegotiation ssl6 = SSL_LEGACY_RENEGOTIATION \<and>
               allow_legacy_renegotiation ssl6 = SSL_LEGACY_BREAK_HANDSHAKE \<or>
             renegotiation ssl6 = SSL_RENEGOTIATION \<and>
               secure_renegotiation ssl6 = SSL_SECURE_RENEGOTIATION \<and>
               \<not> renegotiation_info_seen \<or>
             renegotiation ssl6 = SSL_RENEGOTIATION \<and>
               secure_renegotiation ssl6 = SSL_LEGACY_RENEGOTIATION \<and>
               allow_legacy_renegotiation ssl6 = SSL_LEGACY_NO_RENEGOTIATION \<or>
             renegotiation ssl6 = SSL_RENEGOTIATION \<and>
               secure_renegotiation ssl6 = SSL_LEGACY_RENEGOTIATION \<and>
               renegotiation_info_seen
          then (case send_alert E ssl6 SSL_ALERT_LEVEL_FATAL
                       SSL_ALERT_MSG_HANDSHAKE_FAILURE of
                  None \<Rightarrow> Some POLARSSL_ERR_SSL_BAD_HS_CLIENT_HELLO
                | Some ret \<Rightarrow> Some ret,
                ssl6\<lparr>alerts_sent := alerts_sent ssl6 @
                        [(SSL_ALERT_LEVEL_FATAL, SSL_ALERT_MSG_HANDSHAKE_FAILURE)]\<rparr>)
          else client_hello_select E ssl6 (ptr_add (in_msg ssl2) (41 + sess_len))
                 ciph_len)))))"
proof
  show "client_hello_policy E ssl seen =
     (if secure_renegotiation ssl = SSL_LEGACY_RENEGOTIATION \<and>
           allow_legacy_renegotiation ssl = SSL_LEGACY_BREAK_HANDSHAKE \<or>
         renegotiation ssl = SSL_RENEGOTIATION \<and>
           secure_renegotiation ssl = SSL_SECURE_RENEGOTIATION \<and> \<not> seen \<or>
         renegotiation ssl = SSL_RENEGOTIATION \<and>
           secure_renegotiation ssl = SSL_LEGACY_RENEGOTIATION \<and>
           allow_legacy_renegotiation ssl = SSL_LEGACY_NO_RENEGOTIATION \<or>
         renegotiation ssl = SSL_RENEGOTIATION \<and>
           secure_renegotiation ssl = SSL_LEGACY_RENEGOTIATION \<and> seen
      then Inl (case send_alert E ssl SSL_ALERT_LEVEL_FATAL SSL_ALERT_MSG_HANDSHAKE_FAILURE of
                  None \<Rightarrow> Some POLARSSL_ERR_SSL_BAD_HS_CLIENT_HELLO
                | Some ret \<Rightarrow> Some ret,
                ssl\<lparr>alerts_sent := alerts_sent ssl @
                       [(SSL_ALERT_LEVEL_FATAL, SSL_ALERT_MSG_HANDSHAKE_FAILURE)]\<rparr>)
      else Inr ssl)"
    by (rule client_hello_policy_eq)
next
  show "client_hello_v3 E ssl0 =
     (case client_hello_record E ssl0 of
        Inl r \<Rightarrow> r
      | Inr ssl1 \<Rightarrow>
     (case client_hello_header E ssl1 of
        Inl r \<Rightarrow> r
      | Inr ssl2 \<Rightarrow>
     (case client_hello_lengths ssl2 (in_msg ssl2) (client_hello_n ssl1) of
        Inl r \<Rightarrow> r
      | Inr (ssl3, sess_len, ciph_len, comp_len, ext_len) \<Rightarrow>
     (case check_scsv E
             (select_compression (config E) ssl3
                (ptr_add (in_msg ssl2) (42 + sess_len + ciph_len)) comp_len)
             (scsv_loop (ptr_add (in_msg ssl2) (41 + sess_len)) 0 ciph_len) of
        Inl r \<Rightarrow> r
      | Inr ssl5 \<Rightarrow>
     (case ext_loop E ssl5 (ptr_add (in_msg ssl2) (44 + sess_len + ciph_len + comp_len)) 0
             ext_len False of
        Inl r \<Rightarrow> r
      | Inr (ssl6, renegotiation_info_seen) \<Rightarrow>
          if secure_renegotiation ssl6 = SSL_LEGACY_RENEGOTIATION \<and>
               allow_legacy_renegotiation ssl6 = SSL_LEGACY_BREAK_HANDSHAKE \<or>
             renegotiation ssl6 = SSL_RENEGOTIATION \<and>
               secure_renegotiation ssl6 = SSL_SECURE_RENEGOTIATION \<and>
               \<not> renegotiation_info_seen \<or>
             renegotiation ssl6 = SSL_RENEGOTIATION \<and>
               secure_renegotiation ssl6 = SSL_LEGACY_RENEGOTIATION \<and>
               allow_legacy_renegotiation ssl6 = SSL_LEGACY_NO_RENEGOTIATION \<or>
             renegotiation ssl6 = SSL_RENEGOTIATION \<and>
               secure_renegotiation ssl6 = SSL_LEGACY_RENEGOTIATION \<and>
               renegotiation_info_seen
          then (case send_alert E ssl6 SSL_ALERT_LEVEL_FATAL
                       SSL_ALERT_MSG_HANDSHAKE_FAILURE of
                  None \<Rightarrow> Some POLARSSL_ERR_SSL_BAD_HS_CLIENT_HELLO
                | Some ret \<Rightarrow> Some ret,
                ssl6\<lparr>alerts_sent := alerts_sent ssl6 @
                        [(SSL_ALERT_LEVEL_FATAL, SSL_ALERT_MSG_HANDSHAKE_FAILURE)]\<rparr>)
          else client_hello_select E ssl6 (ptr_add (in_msg ssl2) (41 + sess_len))
                 ciph_len)))))"
    unfolding client_hello_v3_def
    by (simp add: client_hello_policy_eq split: sum.split prod.split)
qed

theorem client_hello_policy_cases_witness:
  "client_hello_policy collaborators_ok ssl_reneg False =
     Inl (Some POLARSSL_ERR_SSL_BAD_HS_CLIENT_HELLO,
          ssl_reneg\<lparr>alerts_sent :=
                       [(SSL_ALERT_LEVEL_FATAL, SSL_ALERT_MSG_HANDSHAKE_FAILURE)]\<rparr>) \<and>
   client_hello_policy collaborators_ok ssl_reneg True = Inr ssl_reneg \<and>
   fst (ssl_parse_client_hello collaborators_ok ssl_reneg_hello) =
     Some POLARSSL_ERR_SSL_BAD_HS_CLIENT_HELLO \<and>
   alerts_sent (snd (ssl_parse_client_hello collaborators_ok ssl_reneg_hello)) =
     [(SSL_ALERT_LEVEL_FATAL, SSL_ALERT_MSG_HANDSHAKE_FAILURE)]"
proof -
  have a: "client_hello_policy collaborators_ok ssl_reneg False =
     Inl (Some POLARSSL_ERR_SSL_BAD_HS_CLIENT_HELLO,
          ssl_reneg\<lparr>alerts_sent :=
                       [(SSL_ALERT_LEVEL_FATAL, SSL_ALERT_MSG_HANDSHAKE_FAILURE)]\<rparr>)"
    using client_hello_policy_cases
            [where E = collaborators_ok and ssl = ssl_reneg and seen = False, THEN conjunct1]
    by (simp add: reneg_policy_fields)
  have b: "client_hello_policy collaborators_ok ssl_reneg True = Inr ssl_reneg"
    using client_hello_policy_cases
            [where E = collaborators_ok and ssl = ssl_reneg and seen = True, THEN conjunct1]
    by (simp add: reneg_policy_fields)
  have c: "fst (ssl_parse_client_hello collaborators_ok ssl_reneg_hello) =
             Some POLARSSL_ERR_SSL_BAD_HS_CLIENT_HELLO"
    by code_simp
  have d: "alerts_sent (snd (ssl_parse_client_hello collaborators_ok ssl_reneg_hello)) =
             [(SSL_ALERT_LEVEL_FATAL, SSL_ALERT_MSG_HANDSHAKE_FAILURE)]"
    by code_simp
  from a b c d show ?thesis
    by (intro conjI)
qed

text \<open>
  The claim as stated fails where the alert cannot be sent: in the renegotiation of
  \<open>ssl_reneg\<close>, secure and without renegotiation\_info, the function returns the
  status of the write, here \<open>OTHER_STATUS (- 78)\<close>, and not
  \<^verbatim>\<open>POLARSSL_ERR_SSL_BAD_HS_CLIENT_HELLO\<close>.
\<close>
theorem client_hello_policy_alert_fails_counterexample:
  "renegotiation ssl_reneg = SSL_RENEGOTIATION \<and>
   secure_renegotiation ssl_reneg = SSL_SECURE_RENEGOTIATION \<and>
   client_hello_policy collaborators_alert_fails ssl_reneg False =
     Inl (Some (OTHER_STATUS (- 78)),
          ssl_reneg\<lparr>alerts_sent :=
                       [(SSL_ALERT_LEVEL_FATAL, SSL_ALERT_MSG_HANDSHAKE_FAILURE)]\<rparr>) \<and>
   fst (ssl_parse_client_hello collaborators_alert_fails ssl_reneg_hello) =
     Some (OTHER_STATUS (- 78)) \<and>
   OTHER_STATUS (- 78) \<noteq> POLARSSL_ERR_SSL_BAD_HS_CLIENT_HELLO"
proof -
  have a: "client_hello_policy collaborators_alert_fails ssl_reneg False =
     Inl (Some (OTHER_STATUS (- 78)),
          ssl_reneg\<lparr>alerts_sent :=
                       [(SSL_ALERT_LEVEL_FATAL, SSL_ALERT_MSG_HANDSHAKE_FAILURE)]\<rparr>)"
    by (simp add: client_hello_policy_eq reneg_policy_fields)
  have c: "fst (ssl_parse_client_hello collaborators_alert_fails ssl_reneg_hello) =
             Some (OTHER_STATUS (- 78))"
    by code_simp
  from a c show ?thesis
    by (simp add: reneg_policy_fields)
qed

subsection \<open>ServerHello\<close>

lemma bytes_at_store_suffix:
  "bytes_at (ptr_add (store dst off (ys @ zs)) (off + length ys)) (length zs) = zs"
  by (rule nth_equalityI) (simp_all add: bytes_at_def ptr_add_def store_def nth_append)

lemma bytes_at_upd_suffix:
  "0 < k \<Longrightarrow> bytes_at (ptr_add (f(0 := c)) k) n = bytes_at (ptr_add f k) n"
  by (simp add: bytes_at_def ptr_add_def)

lemma server_hello_ext_length:
  "secure_renegotiation ssl = SSL_SECURE_RENEGOTIATION \<Longrightarrow>
   length (server_hello_ext ssl) = 2 + (5 + 2 * verify_data_len ssl)"
  by (simp add: server_hello_ext_def Let_def)

lemma server_hello_ext_secure:
  "secure_renegotiation ssl = SSL_SECURE_RENEGOTIATION \<Longrightarrow>
   server_hello_ext ssl =
     [of_nat (drop_bit 8 (5 + 2 * verify_data_len ssl) AND 0xFF),
      of_nat ((5 + 2 * verify_data_len ssl) AND 0xFF),
      0xFF, 0x01, 0x00,
      of_nat ((2 * verify_data_len ssl + 1) AND 0xFF),
      of_nat (2 * verify_data_len ssl AND 0xFF)] @
     bytes_at (peer_verify_data ssl) (verify_data_len ssl) @
     bytes_at (own_verify_data ssl) (verify_data_len ssl)"
  by (simp add: server_hello_ext_def Let_def TLS_EXT_RENEGOTIATION_INFO_def mult.commute)

lemma server_hello_ext_cong:
  "secure_renegotiation s = secure_renegotiation ssl \<Longrightarrow>
   verify_data_len s = verify_data_len ssl \<Longrightarrow>
   peer_verify_data s = peer_verify_data ssl \<Longrightarrow>
   own_verify_data s = own_verify_data ssl \<Longrightarrow>
   server_hello_ext s = server_hello_ext ssl"
  by (simp add: server_hello_ext_def)

lemma server_hello_finish_written:
  assumes "server_hello_finish E ssl = (ret, ssl')"
  shows "records_written ssl' =
           records_written ssl @ [bytes_at (out_msg ssl') (out_msglen ssl')] \<and>
         sess_length (session_negotiate ssl') = sess_length (session_negotiate ssl) \<and>
         out_msglen ssl' =
           42 + sess_length (session_negotiate ssl) + length (server_hello_ext ssl) \<and>
         bytes_at (ptr_add (out_msg ssl') (42 + sess_length (session_negotiate ssl)))
           (length (server_hello_ext ssl)) = server_hello_ext ssl"
proof -
  let ?sess = "session_negotiate ssl"
  let ?ys = "bytes_at (sess_id ?sess) (sess_length ?sess) @
             [word_of_int (drop_bit 8 (ciphersuite ?sess)), word_of_int (ciphersuite ?sess),
              compression ?sess]"
  have l: "39 + length ?ys = 42 + sess_length ?sess"
    by simp
  have "bytes_at (ptr_add (store (out_msg ssl) 39 (?ys @ server_hello_ext ssl))
                    (39 + length ?ys))
          (length (server_hello_ext ssl)) = server_hello_ext ssl"
    by (rule bytes_at_store_suffix)
  then have s: "bytes_at
                  (ptr_add ((store (out_msg ssl) 39 (?ys @ server_hello_ext ssl))
                              (0 := SSL_HS_SERVER_HELLO))
                     (42 + sess_length ?sess))
                  (length (server_hello_ext ssl)) = server_hello_ext ssl"
    unfolding l by (simp add: bytes_at_upd_suffix)
  show ?thesis
    using assms s
    by (auto simp: server_hello_finish_def ssl_write_record_def Let_def)
qed

lemma server_hello_prepare_frame:
  "case server_hello_prepare E ssl of
     Inl (ret, s) \<Rightarrow> records_written s = records_written ssl
   | Inr s \<Rightarrow>
       records_written s = records_written ssl \<and>
       secure_renegotiation s = secure_renegotiation ssl \<and>
       verify_data_len s = verify_data_len ssl \<and>
       peer_verify_data s = peer_verify_data ssl \<and>
       own_verify_data s = own_verify_data ssl"
  unfolding server_hello_prepare_def Let_def
  by (simp split: prod.split option.split)

text \<open>
  What a ServerHello that reaches the record layer ends with: the bytes of
  \<open>server_hello_ext\<close>, right after the compression byte.
\<close>
lemma server_hello_written:
  assumes prep: "server_hello_prepare E ssl = Inr s"
    and run: "ssl_write_server_hello E ssl = (ret, ssl')"
  shows "records_written ssl' =
           records_written ssl @ [bytes_at (out_msg ssl') (out_msglen ssl')] \<and>
         out_msglen ssl' =
           42 + sess_length (session_negotiate ssl') + length (server_hello_ext ssl) \<and>
         bytes_at (ptr_add (out_msg ssl') (42 + sess_length (session_negotiate ssl')))
           (length (server_hello_ext ssl)) = server_hello_ext ssl"
proof -
  have fr: "records_written s = records_written ssl \<and>
            secure_renegotiation s = secure_renegotiation ssl \<and>
            verify_data_len s = verify_data_len ssl \<and>
            peer_verify_data s = peer_verify_data ssl \<and>
            own_verify_data s = own_verify_data ssl"
    using server_hello_prepare_frame [where E = E and ssl = ssl] prep by simp
  then have ext: "server_hello_ext s = server_hello_ext ssl"
    by (intro server_hello_ext_cong) simp_all
  have fin: "server_hello_finish E s = (ret, ssl')"
    using run prep by (simp add: ssl_write_server_hello_def)
  from server_hello_finish_written [OF fin] show ?thesis
    unfolding ext using fr by simp
qed

lemma server_hello_sess_length:
  assumes prep: "server_hello_prepare E ssl = Inr s"
    and run: "ssl_write_server_hello E ssl = (ret, ssl')"
  shows "sess_length (session_negotiate ssl') = sess_length (session_negotiate s)"
proof -
  have fin: "server_hello_finish E s = (ret, ssl')"
    using run prep by (simp add: ssl_write_server_hello_def)
  from server_hello_finish_written [OF fin] show ?thesis
    by simp
qed

lemma server_hello_not_written:
  assumes prep: "server_hello_prepare E ssl = Inl r"
    and run: "ssl_write_server_hello E ssl = (ret, ssl')"
  shows "records_written ssl' = records_written ssl"
proof -
  have "r = (ret, ssl')"
    using run prep by (simp add: ssl_write_server_hello_def)
  then show ?thesis
    using server_hello_prepare_frame [where E = E and ssl = ssl] prep by simp
qed

lemma prep_reneg: "server_hello_prepare collaborators_ok ssl_reneg =
    Inr (projr (server_hello_prepare collaborators_ok ssl_reneg))"
proof -
  have "\<not> isl (server_hello_prepare collaborators_ok ssl_reneg)"
    by (simp add: server_hello_prepare_def Let_def ssl_reneg_def ssl_fresh_def
          collaborators_ok_def)
  then show ?thesis by (cases "server_hello_prepare collaborators_ok ssl_reneg") simp_all
qed

lemma sess_reneg: "sess_length (session_negotiate (projr (server_hello_prepare collaborators_ok ssl_reneg))) = 32"
  by (simp add: server_hello_prepare_def Let_def ssl_reneg_def ssl_fresh_def
        collaborators_ok_def session_fresh_def)

lemma reneg_fields:
  "secure_renegotiation ssl_reneg = SSL_SECURE_RENEGOTIATION"
  "verify_data_len ssl_reneg = 12"
  "records_written ssl_reneg = []"
  by (simp_all add: ssl_reneg_def ssl_fresh_def)

text \<open>
  Claim C3, as the code has it. Whenever a ServerHello is handed to the record layer with
  \<^verbatim>\<open>secure_renegotiation\<close> at \<^verbatim>\<open>SSL_SECURE_RENEGOTIATION\<close>, the message ends, right
  after the compression byte, with one extensions block: the two bytes of its length
  \<open>5 + 2 * verify_data_len\<close>, the renegotiation\_info id \<open>FF 01\<close>, the two bytes of
  the extension's length, the one byte \<open>2 * verify_data_len\<close>, and then
  \<^verbatim>\<open>peer_verify_data\<close> followed by \<^verbatim>\<open>own_verify_data\<close> (the client's verify data
  before the server's).
\<close>
theorem server_hello_renegotiation_ext:
  assumes sec: "secure_renegotiation ssl = SSL_SECURE_RENEGOTIATION"
    and run: "ssl_write_server_hello E ssl = (ret, ssl')"
    and written: "records_written ssl' \<noteq> records_written ssl"
  shows "records_written ssl' =
           records_written ssl @ [bytes_at (out_msg ssl') (out_msglen ssl')] \<and>
         out_msglen ssl' =
           42 + sess_length (session_negotiate ssl') + 2 + (5 + 2 * verify_data_len ssl) \<and>
         bytes_at (ptr_add (out_msg ssl') (42 + sess_length (session_negotiate ssl')))
             (2 + (5 + 2 * verify_data_len ssl)) =
           [of_nat (drop_bit 8 (5 + 2 * verify_data_len ssl) AND 0xFF),
            of_nat ((5 + 2 * verify_data_len ssl) AND 0xFF),
            0xFF, 0x01, 0x00,
            of_nat ((2 * verify_data_len ssl + 1) AND 0xFF),
            of_nat (2 * verify_data_len ssl AND 0xFF)] @
           bytes_at (peer_verify_data ssl) (verify_data_len ssl) @
           bytes_at (own_verify_data ssl) (verify_data_len ssl)"
proof (cases "server_hello_prepare E ssl")
  case (Inl r)
  from server_hello_not_written [OF Inl run] written show ?thesis
    by simp
next
  case (Inr s)
  have len: "length (server_hello_ext ssl) = 2 + (5 + 2 * verify_data_len ssl)"
    using sec by (rule server_hello_ext_length)
  from server_hello_written [OF Inr run] show ?thesis
    unfolding len using server_hello_ext_secure [OF sec] by simp
qed

theorem server_hello_renegotiation_ext_witness:
  "secure_renegotiation ssl_reneg = SSL_SECURE_RENEGOTIATION \<and>
   records_written (snd (ssl_write_server_hello collaborators_ok ssl_reneg)) \<noteq>
     records_written ssl_reneg \<and>
   out_msglen (snd (ssl_write_server_hello collaborators_ok ssl_reneg)) = 105 \<and>
   bytes_at (ptr_add (out_msg (snd (ssl_write_server_hello collaborators_ok ssl_reneg))) 74) 31 =
     [0, 29, 0xFF, 0x01, 0x00, 25, 24] @
     bytes_at (peer_verify_data ssl_reneg) 12 @ bytes_at (own_verify_data ssl_reneg) 12"
proof -
  let ?r = "ssl_write_server_hello collaborators_ok ssl_reneg"
  have run: "?r = (fst ?r, snd ?r)"
    by simp
  from server_hello_written [OF prep_reneg run]
  have w: "records_written (snd ?r) \<noteq> records_written ssl_reneg"
    by simp
  from server_hello_sess_length [OF prep_reneg run]
  have sl: "sess_length (session_negotiate (snd ?r)) = 32"
    by (simp add: sess_reneg)
  show ?thesis
    using server_hello_renegotiation_ext [OF reneg_fields(1) run w] w sl
    by (simp add: reneg_fields)
qed

text \<open>
  The claim with the payload in the order own, peer fails: in the renegotiation of
  \<open>ssl_reneg\<close> the message written carries the peer's twelve bytes first.
\<close>
theorem server_hello_own_then_peer_counterexample:
  "secure_renegotiation ssl_reneg = SSL_SECURE_RENEGOTIATION \<and>
   records_written (snd (ssl_write_server_hello collaborators_ok ssl_reneg)) =
     [bytes_at (out_msg (snd (ssl_write_server_hello collaborators_ok ssl_reneg))) 105] \<and>
   bytes_at (ptr_add (out_msg (snd (ssl_write_server_hello collaborators_ok ssl_reneg))) 74) 31 =
     [0, 29, 0xFF, 0x01, 0x00, 25, 24] @
     bytes_at (peer_verify_data ssl_reneg) 12 @ bytes_at (own_verify_data ssl_reneg) 12 \<and>
   bytes_at (peer_verify_data ssl_reneg) 12 @ bytes_at (own_verify_data ssl_reneg) 12 \<noteq>
     bytes_at (own_verify_data ssl_reneg) 12 @ bytes_at (peer_verify_data ssl_reneg) 12"
proof -
  let ?r = "ssl_write_server_hello collaborators_ok ssl_reneg"
  have run: "?r = (fst ?r, snd ?r)"
    by simp
  have ext: "server_hello_ext ssl_reneg =
       [0, 29, 0xFF, 0x01, 0x00, 25, 24] @
       bytes_at (peer_verify_data ssl_reneg) 12 @ bytes_at (own_verify_data ssl_reneg) 12"
    by (simp add: server_hello_ext_secure reneg_fields)
  have ne: "bytes_at (peer_verify_data ssl_reneg) 12 @ bytes_at (own_verify_data ssl_reneg) 12 \<noteq>
     bytes_at (own_verify_data ssl_reneg) 12 @ bytes_at (peer_verify_data ssl_reneg) 12"
    by code_simp
  from server_hello_sess_length [OF prep_reneg run]
  have sl: "sess_length (session_negotiate (snd ?r)) = 32"
    by (simp add: sess_reneg)
  from server_hello_written [OF prep_reneg run] show ?thesis
    using ext ne sl by (simp add: reneg_fields)
qed



subsection \<open>The RSA-encrypted premaster\<close>

lemma bytes_at_memcpy_0: "bytes_at (memcpy dst 0 src n) n = bytes_at src n"
  by (simp add: bytes_at_def memcpy_def)

lemma rsa_fields:
  "rsa_key ssl_rsa = Some 0"
  "rsa_key_len ssl_rsa 0 = 128"
  "minor_ver ssl_rsa = 3"
  "in_hslen ssl_rsa = 134"
  "p_rng ssl_rsa = 0"
  "f_rng ssl_rsa 0 48 = (None, (\<lambda>i. 0x5A), 48)"
  "rsa_decrypt ssl_rsa = (\<lambda>k input olen output. (Some (OTHER_STATUS (-1)), olen, output))"
  "premaster (handshake ssl_rsa) = zeroes"
  by (simp_all add: ssl_rsa_def ssl_fresh_def handshake_fresh_def)

lemma rsa_msg: "in_msg ssl_rsa 4 = 0" "in_msg ssl_rsa 5 = 128"
  by (simp_all add: ssl_rsa_def in_msg_def ptr_add_def buf_of_def)

text \<open>
  Claim C1, as the code has it. With a private key configured, a ClientKeyExchange whose
  framing is wrong (for TLS 1.0 and later the two length bytes are not the size of the
  key; or the handshake length is not the header plus the size of the key) is rejected
  at once with \<^verbatim>\<open>POLARSSL_ERR_SSL_BAD_HS_CLIENT_KEY_EXCHANGE\<close>. With the framing
  right, a decryption that fails, that yields a length other than 48, or whose first two
  bytes are not the version the client advertised ends in success, provided the random
  generator succeeds: \<open>pmslen\<close> is 48 and the first 48 bytes of the premaster are the
  48 bytes the generator drew. A decryption that passes all three tests is kept.
\<close>
theorem encrypted_pms_cases:
  assumes key: "rsa_key ssl = Some key"
    and dec: "rsa_decrypt ssl key
                (bytes_at (ptr_add (in_msg ssl) (if minor_ver ssl \<noteq> SSL_MINOR_VERSION_0 then 6 else 4))
                   (rsa_key_len ssl key))
                48 (premaster (handshake ssl)) = (ret, olen, pm)"
    and rng: "f_rng ssl (p_rng ssl) 48 = (None, r, g)"
  shows "ssl_parse_encrypted_pms_secret ssl =
           (if (minor_ver ssl \<noteq> SSL_MINOR_VERSION_0 \<and>
                (unat (in_msg ssl 4) \<noteq> drop_bit 8 (rsa_key_len ssl key) AND 0xFF \<or>
                 unat (in_msg ssl 5) \<noteq> rsa_key_len ssl key AND 0xFF)) \<or>
               in_hslen ssl \<noteq>
                 (if minor_ver ssl \<noteq> SSL_MINOR_VERSION_0 then 6 else 4) + rsa_key_len ssl key
            then (Some POLARSSL_ERR_SSL_BAD_HS_CLIENT_KEY_EXCHANGE,
                  ssl\<lparr>handshake := (handshake ssl)\<lparr>pmslen := 48\<rparr>\<rparr>)
            else if ret \<noteq> None \<or> olen \<noteq> 48 \<or>
                    uint (pm 0) \<noteq> hs_max_major_ver (handshake ssl) \<or>
                    uint (pm 1) \<noteq> hs_max_minor_ver (handshake ssl)
            then (None,
                  ssl\<lparr>handshake := (handshake ssl)
                         \<lparr>pmslen := 48, premaster := memcpy pm 0 r 48\<rparr>,
                       p_rng := g\<rparr>)
            else (None, ssl\<lparr>handshake := (handshake ssl)\<lparr>pmslen := 48, premaster := pm\<rparr>\<rparr>)) \<and>
         bytes_at (memcpy pm 0 r 48) 48 = bytes_at r 48"
  using key dec rng
  by (auto simp: ssl_parse_encrypted_pms_secret_def Let_def bytes_at_memcpy_0)

theorem encrypted_pms_cases_witness:
  "rsa_key ssl_rsa = Some 0 \<and>
   f_rng ssl_rsa (p_rng ssl_rsa) 48 = (None, (\<lambda>i. 0x5A), 48) \<and>
   ssl_parse_encrypted_pms_secret ssl_rsa =
     (None, ssl_rsa\<lparr>handshake := (handshake ssl_rsa)
                       \<lparr>pmslen := 48, premaster := memcpy zeroes 0 (\<lambda>i. 0x5A) 48\<rparr>,
                     p_rng := 48\<rparr>) \<and>
   bytes_at (memcpy zeroes 0 (\<lambda>i. 0x5A) 48) 48 = bytes_at (\<lambda>i. 0x5A) 48"
proof -
  have dec: "rsa_decrypt ssl_rsa 0
               (bytes_at (ptr_add (in_msg ssl_rsa)
                            (if minor_ver ssl_rsa \<noteq> SSL_MINOR_VERSION_0 then 6 else 4))
                  (rsa_key_len ssl_rsa 0))
               48 (premaster (handshake ssl_rsa)) = (Some (OTHER_STATUS (-1)), 48, zeroes)"
    by (simp add: rsa_fields)
  have rng: "f_rng ssl_rsa (p_rng ssl_rsa) 48 = (None, (\<lambda>i. 0x5A), 48)"
    by (simp add: rsa_fields)
  show ?thesis
    using encrypted_pms_cases [OF rsa_fields(1) dec rng] rng
    by (simp add: rsa_fields rsa_msg SSL_MINOR_VERSION_0_def)
qed

text \<open>
  The claim as stated fails on a bad length: a message whose length prefix is 127 for a
  128-byte key is answered with an error, not with a random premaster.
\<close>
theorem encrypted_pms_bad_length_counterexample:
  "rsa_key ssl_rsa_short = Some 0 \<and>
   rsa_key_len ssl_rsa_short 0 = 128 \<and>
   be16 (in_msg ssl_rsa_short 4) (in_msg ssl_rsa_short 5) = 127 \<and>
   fst (ssl_parse_encrypted_pms_secret ssl_rsa_short) =
     Some POLARSSL_ERR_SSL_BAD_HS_CLIENT_KEY_EXCHANGE"
proof -
  have f: "rsa_key ssl_rsa_short = Some 0" "rsa_key_len ssl_rsa_short 0 = 128"
    "minor_ver ssl_rsa_short = 3"
    by (simp_all add: ssl_rsa_short_def ssl_fresh_def)
  have m: "in_msg ssl_rsa_short 4 = 0" "in_msg ssl_rsa_short 5 = 127"
    by (simp_all add: ssl_rsa_short_def in_msg_def ptr_add_def buf_of_def)
  show ?thesis
    by (simp add: ssl_parse_encrypted_pms_secret_def Let_def f m be16_eq SSL_MINOR_VERSION_0_def)
qed



subsection \<open>The PSK key exchange\<close>

lemma length_len16 [simp]: "length (len16 n) = 2"
  by (simp add: len16_def)

lemma be16_len16: "n < 65536 \<Longrightarrow> be16 (len16 n ! 0) (len16 n ! 1) = n"
  by (simp add: be16_eq len16_def unat_of_nat drop_bit_eq_div)














end
